theory Spec2Isabelle
  imports Complex_Main "HOL-Library.Sublist" "HOL-Library.Multiset"
begin

text \<open>
  A shallow embedding of the two programs of the repository: the command-line fitness
  questionnaire, which turns a baseline and goals into a prioritised list of daily
  missions, and the in-memory health and vitality app, which turns survey answers into a
  user, issues daily missions and keeps the user's experience, coins, level and
  achievements. The definitions follow the source function by function; the properties
  proved after them are numbered C1 to C10.
\<close>

section \<open>The fitness questionnaire: plan generation and prioritisation\<close>

text \<open>
  The questionnaire collects a \<open>FitnessBaseline\<close> and a \<open>FitnessGoals\<close> record and turns
  them into a list of \<open>DailyMission\<close>s. Its numbers are what \<open>askNumber\<close> returned: finite,
  never NaN. They are modelled as rationals with exact arithmetic, so \<open>0.7\<close> is \<open>7/10\<close>
  and \<open>0.6\<close> is \<open>6/10\<close>; rounding of binary floating point is not modelled.

  String-literal unions of the source are datatypes. Field \<open>f\<close> of an interface is the
  record field \<open>fb_f\<close> (FitnessBaseline), \<open>fg_f\<close> (FitnessGoals) or \<open>dm_f\<close>
  (DailyMission), since several interfaces of the repository share field names.
\<close>

datatype ActivityLevel =
  sedentary | lightly_active | moderately_active | very_active | extremely_active

datatype FitnessExperience = beginner | intermediate | advanced

datatype Budget = budget_none | budget_low | budget_moderate | budget_high

datatype PrimaryGoal =
  weight_loss | muscle_gain | goal_strength | goal_endurance | goal_flexibility | general_fitness

datatype Priority = priority_high | priority_medium | priority_low

datatype Category = strength | cardio | flexibility | recovery | nutrition

datatype Difficulty = easy | medium | hard

record FitnessBaseline =
  fb_currentWeight :: rat
  fb_height :: rat
  fb_age :: rat
  fb_activityLevel :: ActivityLevel
  fb_workoutFrequency :: rat
  fb_workoutDuration :: rat
  fb_fitnessExperience :: FitnessExperience
  fb_preferredActivities :: "string list"
  fb_currentStrengthLevel :: rat
  fb_currentEnduranceLevel :: rat
  fb_currentFlexibilityLevel :: rat
  fb_timeAvailable :: rat
  fb_budget :: Budget
  fb_equipment :: "string list"
  fb_limitations :: "string list"
  fb_motivation :: rat

record FitnessGoals =
  fg_targetWeight :: "rat option"
  fg_primaryGoal :: PrimaryGoal
  fg_targetStrengthLevel :: rat
  fg_targetEnduranceLevel :: rat
  fg_targetFlexibilityLevel :: rat
  fg_timeframe :: rat
  fg_priority :: Priority
  fg_specificTargets :: "string list"

text \<open>
  An instruction line is either a fixed text or a template literal that starts with a
  number: \<open>Timed d s\<close> stands for the source's \<open>`${d}` + s\<close>, whatever the digits of
  \<open>d\<close> print as.
\<close>

datatype Instruction = Plain string | Timed rat string

record DailyMission =
  dm_id :: string
  dm_title :: string
  dm_description :: string
  dm_category :: Category
  dm_difficulty :: Difficulty
  dm_estimatedTime :: rat
  dm_equipment :: "string list"
  dm_instructions :: "Instruction list"

subsection \<open>Instruction tables\<close>

definition getStrengthInstructions :: "FitnessExperience \<Rightarrow> string list \<Rightarrow> Instruction list" where
  "getStrengthInstructions experience equipment =
     (if ''gym_access'' \<in> set equipment then
        (if experience = beginner then
           [Plain ''Focus on compound movements:'',
            Plain ''- Goblet squats: 3 sets x 8-12 reps'',
            Plain ''- Assisted pull-ups or lat pulldowns: 3 sets x 5-10 reps'',
            Plain ''- Dumbbell bench press: 3 sets x 8-12 reps'',
            Plain ''- Plank: 3 sets x 20-30 seconds'',
            Plain ''Rest 60-90 seconds between sets'']
         else
           [Plain ''Compound strength training:'',
            Plain ''- Squats: 4 sets x 6-8 reps'',
            Plain ''- Deadlifts: 4 sets x 5-6 reps'',
            Plain ''- Bench press: 4 sets x 6-8 reps'',
            Plain ''- Rows: 4 sets x 8-10 reps'',
            Plain ''Rest 2-3 minutes between sets''])
      else
        [Plain ''Home strength circuit:'',
         Plain ''- Push-up variations: 3 sets x 8-15 reps'',
         Plain ''- Dumbbell squats: 3 sets x 12-15 reps'',
         Plain ''- Dumbbell rows: 3 sets x 10-12 reps'',
         Plain ''- Overhead press: 3 sets x 8-12 reps'',
         Plain ''Rest 60 seconds between sets''])"

definition walkingIntervalPlan :: "rat \<Rightarrow> Instruction list" where
  "walkingIntervalPlan duration =
     [Timed duration ''-minute beginner cardio:'',
      Plain ''- 5 minutes easy walking'',
      Plain ''- Alternate 1 minute brisk walk, 1 minute easy walk'',
      Plain ''- End with 5 minutes easy walking'',
      Plain ''- Focus on breathing and form over speed'']"

definition structuredIntervalPlan :: "rat \<Rightarrow> Instruction list" where
  "structuredIntervalPlan duration =
     [Timed duration ''-minute cardio session:'',
      Plain ''- 5 minute warm-up'',
      Plain ''- High-intensity intervals: 30 seconds work, 90 seconds rest'',
      Plain ''- Repeat for main portion of workout'',
      Plain ''- 5 minute cool-down'',
      Plain ''- Monitor heart rate if possible'']"

definition getCardioInstructions :: "rat \<Rightarrow> rat \<Rightarrow> Instruction list" where
  "getCardioInstructions enduranceLevel duration =
     (if enduranceLevel < 4 then walkingIntervalPlan duration
      else structuredIntervalPlan duration)"

subsection \<open>The four missions\<close>

definition strengthMission001 :: "FitnessBaseline \<Rightarrow> DailyMission" where
  "strengthMission001 baseline =
     \<lparr> dm_id = ''strength_001'',
       dm_title = ''Strength Training Session'',
       dm_description =
         ''Complete a focused strength training workout targeting major muscle groups'',
       dm_category = strength,
       dm_difficulty = (if fb_fitnessExperience baseline = beginner then easy else medium),
       dm_estimatedTime = min (fb_timeAvailable baseline * (7 / 10)) 45,
       dm_equipment =
         (if ''gym_access'' \<in> set (fb_equipment baseline)
          then [''gym_access''] else [''home_equipment'']),
       dm_instructions =
         getStrengthInstructions (fb_fitnessExperience baseline) (fb_equipment baseline) \<rparr>"

definition strengthMission002 :: DailyMission where
  "strengthMission002 =
     \<lparr> dm_id = ''strength_002'',
       dm_title = ''Bodyweight Strength Circuit'',
       dm_description = ''Build strength using bodyweight exercises'',
       dm_category = strength,
       dm_difficulty = easy,
       dm_estimatedTime = 20,
       dm_equipment = [''bodyweight_only''],
       dm_instructions =
         [Plain ''Perform 3 rounds of:'',
          Plain ''- 10 Push-ups (modify as needed)'',
          Plain ''- 15 Squats'',
          Plain ''- 30-second Plank'',
          Plain ''- 10 Lunges per leg'',
          Plain ''Rest 60 seconds between rounds''] \<rparr>"

definition cardioMission :: "FitnessBaseline \<Rightarrow> DailyMission" where
  "cardioMission baseline =
     (let cardioTime = min (fb_timeAvailable baseline * (6 / 10)) 30 in
      \<lparr> dm_id = ''cardio_001'',
        dm_title = ''Cardiovascular Training'',
        dm_description = ''Improve heart health and endurance'',
        dm_category = cardio,
        dm_difficulty = (if fb_currentEnduranceLevel baseline < 5 then easy else medium),
        dm_estimatedTime = cardioTime,
        dm_equipment = [''bodyweight_only''],
        dm_instructions =
          getCardioInstructions (fb_currentEnduranceLevel baseline) cardioTime \<rparr>)"

definition flexibilityMission :: DailyMission where
  "flexibilityMission =
     \<lparr> dm_id = ''flexibility_001'',
       dm_title = ''Flexibility & Mobility'',
       dm_description = ''Improve flexibility and reduce muscle tension'',
       dm_category = flexibility,
       dm_difficulty = easy,
       dm_estimatedTime = 15,
       dm_equipment = [''bodyweight_only''],
       dm_instructions =
         [Plain ''Hold each stretch for 30 seconds:'',
          Plain ''- Neck rolls and shoulder shrugs'',
          Plain ''- Arm circles and chest stretch'',
          Plain ''- Hip circles and leg swings'',
          Plain ''- Hamstring and calf stretches'',
          Plain ''- Spinal twists (seated or standing)''] \<rparr>"

definition recoveryMission :: DailyMission where
  "recoveryMission =
     \<lparr> dm_id = ''recovery_001'',
       dm_title = ''Active Recovery'',
       dm_description = ''Promote recovery and prepare for next workout'',
       dm_category = recovery,
       dm_difficulty = easy,
       dm_estimatedTime = 10,
       dm_equipment = [''bodyweight_only''],
       dm_instructions =
         [Plain ''- 5 minutes gentle walking'',
          Plain ''- Deep breathing exercises (4-7-8 pattern)'',
          Plain ''- Gentle stretching focusing on worked muscles'',
          Plain ''- Hydrate well'',
          Plain ''- Note how you feel in a fitness journal''] \<rparr>"

subsection \<open>prioritizeMissions\<close>

text \<open>
  \<open>Array.prototype.indexOf\<close>: the position of the first occurrence, \<open>-1\<close> when there is
  none.
\<close>

fun indexOf :: "'a list \<Rightarrow> 'a \<Rightarrow> int" where
  "indexOf [] x = -1"
| "indexOf (y # ys) x =
     (if y = x then 0 else (let i = indexOf ys x in if i < 0 then -1 else i + 1))"

definition priorityOrder :: "PrimaryGoal \<Rightarrow> Category list" where
  "priorityOrder goal =
     (case goal of
        weight_loss \<Rightarrow> [cardio, strength, recovery, flexibility]
      | muscle_gain \<Rightarrow> [strength, recovery, flexibility, cardio]
      | goal_strength \<Rightarrow> [strength, recovery, flexibility, cardio]
      | goal_endurance \<Rightarrow> [cardio, flexibility, recovery, strength]
      | goal_flexibility \<Rightarrow> [flexibility, recovery, strength, cardio]
      | general_fitness \<Rightarrow> [strength, cardio, flexibility, recovery])"

text \<open>
  \<open>missions.reduce((sum, mission) => sum + mission.estimatedTime, 0)\<close>: a fold from the
  left, starting at 0.
\<close>

definition totalTime :: "DailyMission list \<Rightarrow> rat" where
  "totalTime missions = foldl (\<lambda>sum mission. sum + dm_estimatedTime mission) 0 missions"

text \<open>
  \<open>missions.sort((a, b) => order.indexOf(a.category) - order.indexOf(b.category))\<close>: the
  comparator orders by the key \<open>order.indexOf(category)\<close>, and the sort is stable, as
  \<open>sort_key\<close> is.
\<close>

definition sortByPriority :: "Category list \<Rightarrow> DailyMission list \<Rightarrow> DailyMission list" where
  "sortByPriority order missions = sort_key (\<lambda>m. indexOf order (dm_category m)) missions"

text \<open>
  The \<open>filter\<close> callback of \<open>prioritizeMissions\<close> with its captured variable
  \<open>currentTime\<close>: a mission is kept when it fits on top of the missions kept so far, and
  then \<open>currentTime\<close> grows by its time; a mission that does not fit is skipped and the
  scan goes on.
\<close>

fun keepWithinTime :: "rat \<Rightarrow> rat \<Rightarrow> DailyMission list \<Rightarrow> DailyMission list" where
  "keepWithinTime timeAvailable currentTime [] = []"
| "keepWithinTime timeAvailable currentTime (mission # rest) =
     (if currentTime + dm_estimatedTime mission \<le> timeAvailable
      then mission # keepWithinTime timeAvailable (currentTime + dm_estimatedTime mission) rest
      else keepWithinTime timeAvailable currentTime rest)"

definition prioritizeMissions ::
  "DailyMission list \<Rightarrow> FitnessBaseline \<Rightarrow> FitnessGoals \<Rightarrow> DailyMission list" where
  "prioritizeMissions missions baseline goals =
     (if totalTime missions > fb_timeAvailable baseline then
        keepWithinTime (fb_timeAvailable baseline) 0
          (sortByPriority (priorityOrder (fg_primaryGoal goals)) missions)
      else missions)"

subsection \<open>generateMissions\<close>

text \<open>
  \<open>candidateMissions\<close> is the array \<open>missions\<close> of \<open>generateMissions\<close> as it stands
  just before the \<open>return\<close>: each rule appends at most one mission, and the recovery rule
  reads the length of what the three rules before it have pushed.
\<close>

definition candidateMissions :: "FitnessBaseline \<Rightarrow> FitnessGoals \<Rightarrow> DailyMission list" where
  "candidateMissions baseline goals =
     (let strengthGap = fg_targetStrengthLevel goals - fb_currentStrengthLevel baseline;
          enduranceGap = fg_targetEnduranceLevel goals - fb_currentEnduranceLevel baseline;
          flexibilityGap = fg_targetFlexibilityLevel goals - fb_currentFlexibilityLevel baseline;
          missions1 =
            (if strengthGap > 0 then
               (if ''gym_access'' \<in> set (fb_equipment baseline)
                   \<or> ''home_equipment'' \<in> set (fb_equipment baseline)
                then [strengthMission001 baseline]
                else [strengthMission002])
             else []);
          missions2 = missions1 @
            (if enduranceGap > 0 \<or> fg_primaryGoal goals = weight_loss
             then [cardioMission baseline] else []);
          missions3 = missions2 @
            (if flexibilityGap > 0 then [flexibilityMission] else []);
          missions4 = missions3 @
            (if fb_fitnessExperience baseline = beginner \<or> length missions3 > 1
             then [recoveryMission] else [])
      in missions4)"

definition generateMissions :: "FitnessBaseline \<Rightarrow> FitnessGoals \<Rightarrow> DailyMission list" where
  "generateMissions baseline goals =
     prioritizeMissions (candidateMissions baseline goals) baseline goals"

subsection \<open>Sample sessions\<close>

text \<open>
  The session of the specification's worked example: 30 minutes a day, a beginner with
  bodyweight only, strength 2 to 6, endurance 3 to 7, flexibility 5 to 5, weight loss.
\<close>

definition sampleBaseline :: FitnessBaseline where
  "sampleBaseline =
     \<lparr> fb_currentWeight = 180, fb_height = 70, fb_age = 30,
       fb_activityLevel = lightly_active,
       fb_workoutFrequency = 2, fb_workoutDuration = 30,
       fb_fitnessExperience = beginner,
       fb_preferredActivities = [],
       fb_currentStrengthLevel = 2, fb_currentEnduranceLevel = 3,
       fb_currentFlexibilityLevel = 5,
       fb_timeAvailable = 30,
       fb_budget = budget_low,
       fb_equipment = [''bodyweight_only''],
       fb_limitations = [],
       fb_motivation = 7 \<rparr>"

definition sampleGoals :: FitnessGoals where
  "sampleGoals =
     \<lparr> fg_targetWeight = Some 170, fg_primaryGoal = weight_loss,
       fg_targetStrengthLevel = 6, fg_targetEnduranceLevel = 7,
       fg_targetFlexibilityLevel = 5,
       fg_timeframe = 6, fg_priority = priority_medium,
       fg_specificTargets = [] \<rparr>"

section \<open>The health and vitality app\<close>

subsection \<open>JavaScript values\<close>

text \<open>
  Survey answers are \<open>number | string | boolean\<close> and go through \<open>Number(...)\<close>, which
  may yield NaN or an infinity, so the numbers of this part carry those values. Finite
  numbers are rationals with exact arithmetic: rounding, overflow and the sign of zero
  are not modelled (a zero divisor counts as \<open>+0\<close>).
\<close>

datatype JsNumber = Fin rat | PosInfinity | NegInfinity | NaN

datatype JsValue = JNumber JsNumber | JString string | JBoolean bool

text \<open>A \<open>Date\<close> is its count of milliseconds since the epoch.\<close>

type_synonym Date = int

text \<open>\<open>truthy n\<close>: the number \<open>n\<close> read as a condition; 0 and NaN are falsy.\<close>

fun truthy :: "JsNumber \<Rightarrow> bool" where
  "truthy (Fin r) = (r \<noteq> 0)"
| "truthy PosInfinity = True"
| "truthy NegInfinity = True"
| "truthy NaN = False"

text \<open>\<open>orElse a b\<close> is \<open>a || b\<close> on numbers.\<close>

definition orElse :: "JsNumber \<Rightarrow> JsNumber \<Rightarrow> JsNumber" where
  "orElse a b = (if truthy a then a else b)"

text \<open>
  \<open>toNumber\<close> is \<open>Number(v)\<close> for a value that may be \<open>undefined\<close> (\<open>None\<close>). The
  conversion of a string is the runtime's; it is the parameter \<open>stringToNumber\<close>.
\<close>

fun toNumber :: "(string \<Rightarrow> JsNumber) \<Rightarrow> JsValue option \<Rightarrow> JsNumber" where
  "toNumber stringToNumber None = NaN"
| "toNumber stringToNumber (Some (JNumber n)) = n"
| "toNumber stringToNumber (Some (JString s)) = stringToNumber s"
| "toNumber stringToNumber (Some (JBoolean b)) = (if b then Fin 1 else Fin 0)"

text \<open>The operators \<open><\<close>, \<open>===\<close>, \<open>-\<close>, \<open>*\<close>, \<open>/\<close>, \<open>Math.max\<close> and \<open>Math.min\<close> on numbers.\<close>

fun jsLess :: "JsNumber \<Rightarrow> JsNumber \<Rightarrow> bool" where
  "jsLess NaN b = False"
| "jsLess a NaN = False"
| "jsLess (Fin a) (Fin b) = (a < b)"
| "jsLess (Fin a) PosInfinity = True"
| "jsLess (Fin a) NegInfinity = False"
| "jsLess PosInfinity b = False"
| "jsLess NegInfinity NegInfinity = False"
| "jsLess NegInfinity b = True"

definition jsGreater :: "JsNumber \<Rightarrow> JsNumber \<Rightarrow> bool" where
  "jsGreater a b = jsLess b a"

fun jsStrictEq :: "JsNumber \<Rightarrow> JsNumber \<Rightarrow> bool" where
  "jsStrictEq NaN b = False"
| "jsStrictEq a NaN = False"
| "jsStrictEq a b = (a = b)"

fun jsNeg :: "JsNumber \<Rightarrow> JsNumber" where
  "jsNeg (Fin a) = Fin (- a)"
| "jsNeg PosInfinity = NegInfinity"
| "jsNeg NegInfinity = PosInfinity"
| "jsNeg NaN = NaN"

fun jsAdd :: "JsNumber \<Rightarrow> JsNumber \<Rightarrow> JsNumber" where
  "jsAdd NaN b = NaN"
| "jsAdd a NaN = NaN"
| "jsAdd (Fin a) (Fin b) = Fin (a + b)"
| "jsAdd (Fin a) b = b"
| "jsAdd PosInfinity NegInfinity = NaN"
| "jsAdd NegInfinity PosInfinity = NaN"
| "jsAdd a b = a"

definition jsSub :: "JsNumber \<Rightarrow> JsNumber \<Rightarrow> JsNumber" where
  "jsSub a b = jsAdd a (jsNeg b)"

fun jsMul :: "JsNumber \<Rightarrow> JsNumber \<Rightarrow> JsNumber" where
  "jsMul NaN b = NaN"
| "jsMul a NaN = NaN"
| "jsMul (Fin a) (Fin b) = Fin (a * b)"
| "jsMul (Fin a) b =
     (if a = 0 then NaN else if 0 < a then b else jsNeg b)"
| "jsMul a (Fin b) =
     (if b = 0 then NaN else if 0 < b then a else jsNeg a)"
| "jsMul PosInfinity b = b"
| "jsMul NegInfinity b = jsNeg b"

fun jsDiv :: "JsNumber \<Rightarrow> JsNumber \<Rightarrow> JsNumber" where
  "jsDiv NaN b = NaN"
| "jsDiv a NaN = NaN"
| "jsDiv (Fin a) (Fin b) =
     (if b \<noteq> 0 then Fin (a / b)
      else if a = 0 then NaN else if 0 < a then PosInfinity else NegInfinity)"
| "jsDiv (Fin a) b = Fin 0"
| "jsDiv a (Fin b) = (if 0 \<le> b then a else jsNeg a)"
| "jsDiv a b = NaN"

fun jsMax :: "JsNumber \<Rightarrow> JsNumber \<Rightarrow> JsNumber" where
  "jsMax NaN b = NaN"
| "jsMax a NaN = NaN"
| "jsMax a b = (if jsLess a b then b else a)"

fun jsMin :: "JsNumber \<Rightarrow> JsNumber \<Rightarrow> JsNumber" where
  "jsMin NaN b = NaN"
| "jsMin a NaN = NaN"
| "jsMin a b = (if jsLess b a then b else a)"

text \<open>The decimal digits of an integer, as a template literal prints it.\<close>

fun digitsOf :: "nat \<Rightarrow> string" where
  "digitsOf n =
     (if n < 10 then [char_of (48 + n)]
      else digitsOf (n div 10) @ [char_of (48 + n mod 10)])"

definition showInt :: "int \<Rightarrow> string" where
  "showInt i = (if i < 0 then ''-'' @ digitsOf (nat (- i)) else digitsOf (nat i))"

subsection \<open>Interfaces\<close>

text \<open>
  Field \<open>f\<close> is \<open>sr_f\<close> in SurveyResponse, \<open>ub_f\<close> in UserBaseline, \<open>ug_f\<close> in
  UserGoals, \<open>gm_f\<close> in the app's DailyMission (here \<open>GameMission\<close>, the questionnaire
  has a DailyMission of its own), \<open>rq_f\<close> in a requirement, \<open>ach_f\<close> in Achievement
  and \<open>u_f\<close> in User; GoalTimeframe and UserProgress keep the source's field names.

  Level, experience and coins start at 1, 0 and 100 in \<open>createUser\<close> and only ever grow
  by additions of natural numbers; they, the streak counters and the figures of the
  achievement table are natural numbers. Titles are given without their leading
  pictograph, and an icon by the code point of its pictograph.
\<close>

record SurveyResponse =
  sr_questionId :: string
  sr_value :: JsValue
  sr_timestamp :: Date

record GoalTimeframe =
  threeMonths :: JsNumber
  sixMonths :: JsNumber
  oneYear :: JsNumber
  fiveYears :: JsNumber
  tenYears :: JsNumber

record UserBaseline =
  ub_energyLevel :: JsNumber
  ub_physicalFitness :: JsNumber
  ub_strength :: JsNumber
  ub_flexibility :: JsNumber
  ub_weight :: JsNumber
  ub_height :: JsNumber
  ub_nutritionQuality :: JsNumber
  ub_hydration :: JsNumber
  ub_sleepQuality :: JsNumber
  ub_stressManagement :: JsNumber
  ub_currentChallenges :: "string list"

record UserGoals =
  ug_energyLevel :: GoalTimeframe
  ug_physicalFitness :: GoalTimeframe
  ug_weight :: GoalTimeframe
  ug_customGoals :: "string \<rightharpoonup> GoalTimeframe"

datatype MissionType = habit | challenge | milestone

record GameMission =
  gm_id :: string
  gm_title :: string
  gm_description :: string
  gm_category :: string
  gm_difficulty :: Difficulty
  gm_xpReward :: int
  gm_coinReward :: int
  gm_estimatedTime :: int
  gm_type :: MissionType
  gm_isCompleted :: bool
  gm_streak :: "int option"

datatype RequirementType =
  req_streak | req_total_missions | req_category_progress | req_goal_reached

record Requirement =
  rq_type :: RequirementType
  rq_value :: nat
  rq_category :: "string option"

record Achievement =
  ach_id :: string
  ach_title :: string
  ach_description :: string
  ach_icon :: string
  ach_xpReward :: nat
  ach_unlockedAt :: "Date option"
  ach_requirements :: "Requirement list"

record UserProgress =
  level :: nat
  xp :: nat
  coins :: nat
  streaks :: "string \<rightharpoonup> nat"
  completedMissions :: "string list"
  unlockedAchievements :: "string list"
  lastActive :: Date

record User =
  u_id :: string
  u_name :: string
  u_baseline :: UserBaseline
  u_goals :: UserGoals
  u_progress :: UserProgress
  u_surveyResponses :: "SurveyResponse list"
  u_createdAt :: Date
  u_updatedAt :: Date

text \<open>The private fields of the class \<open>HealthVitalityApp\<close>.\<close>

record HealthVitalityApp =
  users :: "string \<rightharpoonup> User"
  achievements :: "Achievement list"
  missionTemplates :: "GameMission list"

text \<open>\<open>new Error(message)\<close>, thrown by the API methods.\<close>

datatype AppError = Error string

subsection \<open>Survey processing\<close>

text \<open>
  \<open>new Map(responses.map(r => [r.questionId, r.value]))\<close>: the entries are set in order,
  so the last answer to a question is the one the map holds.
\<close>

definition responseMap :: "SurveyResponse list \<Rightarrow> (string \<rightharpoonup> JsValue)" where
  "responseMap responses =
     foldl (\<lambda>m r. m(sr_questionId r \<mapsto> sr_value r)) Map.empty responses"

definition processSurveyResponses ::
  "(string \<Rightarrow> JsNumber) \<Rightarrow> string \<Rightarrow> SurveyResponse list \<Rightarrow> UserBaseline" where
  "processSurveyResponses stringToNumber userId responses =
     (let answer = (\<lambda>q. toNumber stringToNumber (responseMap responses q)) in
      \<lparr> ub_energyLevel = orElse (answer ''baseline_energy'') (Fin 1),
        ub_physicalFitness = orElse (answer ''baseline_fitness'') (Fin 1),
        ub_strength = orElse (answer ''baseline_strength'') (Fin 1),
        ub_flexibility = orElse (answer ''baseline_flexibility'') (Fin 1),
        ub_weight = orElse (answer ''current_weight'') (Fin 0),
        ub_height = orElse (answer ''height'') (Fin 0),
        ub_nutritionQuality = orElse (answer ''baseline_nutrition'') (Fin 1),
        ub_hydration = orElse (answer ''baseline_hydration'') (Fin 1),
        ub_sleepQuality = orElse (answer ''baseline_sleep'') (Fin 1),
        ub_stressManagement = orElse (answer ''stress_level'') (Fin 1),
        ub_currentChallenges = [] \<rparr>)"

definition processGoals :: "(string \<Rightarrow> JsNumber) \<Rightarrow> SurveyResponse list \<Rightarrow> UserGoals" where
  "processGoals stringToNumber responses =
     (let answer = (\<lambda>q. toNumber stringToNumber (responseMap responses q)) in
      \<lparr> ug_energyLevel =
          \<lparr> threeMonths = orElse (answer ''goal_energy_3m'') (Fin 5),
            sixMonths = orElse (answer ''goal_energy_6m'') (Fin 6),
            oneYear = orElse (answer ''goal_energy_1y'') (Fin 7),
            fiveYears = orElse (answer ''goal_energy_5y'') (Fin 8),
            tenYears = orElse (answer ''goal_energy_10y'') (Fin 8) \<rparr>,
        ug_physicalFitness =
          \<lparr> threeMonths = orElse (answer ''goal_fitness_3m'') (Fin 5),
            sixMonths = orElse (answer ''goal_fitness_6m'') (Fin 6),
            oneYear = orElse (answer ''goal_fitness_1y'') (Fin 7),
            fiveYears = orElse (answer ''goal_fitness_5y'') (Fin 8),
            tenYears = orElse (answer ''goal_fitness_10y'') (Fin 8) \<rparr>,
        ug_weight =
          \<lparr> threeMonths = orElse (answer ''goal_weight_3m'') (Fin 0),
            sixMonths = orElse (answer ''goal_weight_6m'') (Fin 0),
            oneYear = orElse (answer ''goal_weight_1y'') (Fin 0),
            fiveYears = orElse (answer ''goal_weight_5y'') (Fin 0),
            tenYears = orElse (answer ''goal_weight_10y'') (Fin 0) \<rparr>,
        ug_customGoals = Map.empty \<rparr>)"

subsection \<open>The achievement table and the constructor\<close>

definition initializeAchievements :: "Achievement list" where
  "initializeAchievements =
     [\<lparr> ach_id = ''first_mission'',
        ach_title = ''First Steps'',
        ach_description = ''Complete your first daily mission'',
        ach_icon = ''U+1F3AF'',
        ach_xpReward = 50,
        ach_unlockedAt = None,
        ach_requirements =
          [\<lparr> rq_type = req_total_missions, rq_value = 1, rq_category = None \<rparr>] \<rparr>,
      \<lparr> ach_id = ''week_warrior'',
        ach_title = ''Week Warrior'',
        ach_description = ''Complete missions for 7 days straight'',
        ach_icon = ''U+2694 U+FE0F'',
        ach_xpReward = 200,
        ach_unlockedAt = None,
        ach_requirements =
          [\<lparr> rq_type = req_streak, rq_value = 7, rq_category = Some ''daily'' \<rparr>] \<rparr>,
      \<lparr> ach_id = ''fitness_fanatic'',
        ach_title = ''Fitness Fanatic'',
        ach_description = ''Complete 20 fitness missions'',
        ach_icon = ''U+1F4AA'',
        ach_xpReward = 300,
        ach_unlockedAt = None,
        ach_requirements =
          [\<lparr> rq_type = req_category_progress, rq_value = 20,
             rq_category = Some ''fitness'' \<rparr>] \<rparr>,
      \<lparr> ach_id = ''level_10'',
        ach_title = ''Rising Star'',
        ach_description = ''Reach level 10'',
        ach_icon = ''U+1F31F'',
        ach_xpReward = 500,
        ach_unlockedAt = None,
        ach_requirements =
          [\<lparr> rq_type = req_goal_reached, rq_value = 10, rq_category = None \<rparr>] \<rparr>]"

text \<open>\<open>new HealthVitalityApp()\<close>: no users, the achievement table, no mission templates.\<close>

definition newApp :: HealthVitalityApp where
  "newApp = \<lparr> users = Map.empty, achievements = initializeAchievements,
              missionTemplates = [] \<rparr>"

subsection \<open>User management\<close>

text \<open>
  One call reads the clock once: \<open>now\<close> is the value of every \<open>new Date()\<close> and
  \<open>Date.now()\<close> in it. \<open>randomPart\<close> is \<open>Math.random().toString(36).substr(2, 9)\<close>. The
  functions return the app's state next to their result.
\<close>

definition createUser ::
  "(string \<Rightarrow> JsNumber) \<Rightarrow> HealthVitalityApp \<Rightarrow> string \<Rightarrow> SurveyResponse list
     \<Rightarrow> Date \<Rightarrow> string \<Rightarrow> User \<times> HealthVitalityApp" where
  "createUser stringToNumber app name surveyResponses now randomPart =
     (let userId = ''user_'' @ showInt now @ ''_'' @ randomPart;
          user =
            \<lparr> u_id = userId,
              u_name = name,
              u_baseline = processSurveyResponses stringToNumber userId surveyResponses,
              u_goals = processGoals stringToNumber surveyResponses,
              u_progress =
                \<lparr> level = 1, xp = 0, coins = 100, streaks = Map.empty,
                  completedMissions = [], unlockedAchievements = [],
                  lastActive = now \<rparr>,
              u_surveyResponses = surveyResponses,
              u_createdAt = now,
              u_updatedAt = now \<rparr>
      in (user, app\<lparr>users := (users app)(userId \<mapsto> user)\<rparr>))"

definition getUser :: "HealthVitalityApp \<Rightarrow> string \<Rightarrow> User option" where
  "getUser app userId = users app userId"

subsection \<open>Daily mission generation\<close>

text \<open>
  Every factory draws once: \<open>Math.floor(Math.random() * 3)\<close> is 0, 1 or 2, a \<open>Pick\<close>.
  The generator is the sequence of the picks to come.
\<close>

datatype Pick = pick0 | pick1 | pick2

fun pickIndex :: "Pick \<Rightarrow> nat" where
  "pickIndex pick0 = 0"
| "pickIndex pick1 = 1"
| "pickIndex pick2 = 2"

type_synonym Rng = "nat \<Rightarrow> Pick"

definition nextPick :: "Rng \<Rightarrow> Pick \<times> Rng" where
  "nextPick rng = (rng 0, \<lambda>n. rng (Suc n))"

record MissionTemplate =
  tp_title :: string
  tp_description :: string
  tp_difficulty :: Difficulty
  tp_estimatedTime :: int

record VarietyTemplate = MissionTemplate +
  tp_category :: string

definition energyMissions :: "MissionTemplate list" where
  "energyMissions =
     [\<lparr> tp_title = ''Morning Energizer'',
        tp_description = ''Do 10 jumping jacks within 30 minutes of waking up'',
        tp_difficulty = easy, tp_estimatedTime = 2 \<rparr>,
      \<lparr> tp_title = ''Hydration Boost'',
        tp_description = ''Drink a full glass of water before each meal'',
        tp_difficulty = easy, tp_estimatedTime = 1 \<rparr>,
      \<lparr> tp_title = ''Energy Walk'',
        tp_description = ''Take a 15-minute walk outdoors'',
        tp_difficulty = medium, tp_estimatedTime = 15 \<rparr>]"

definition createEnergyMission :: "User \<Rightarrow> Date \<Rightarrow> Rng \<Rightarrow> GameMission \<times> Rng" where
  "createEnergyMission user now rng =
     (let mission = energyMissions ! pickIndex (fst (nextPick rng)) in
      (\<lparr> gm_id = ''energy_'' @ showInt now,
         gm_title = tp_title mission,
         gm_description = tp_description mission,
         gm_category = ''energy'',
         gm_difficulty = tp_difficulty mission,
         gm_xpReward =
           (if tp_difficulty mission = easy then 10
            else if tp_difficulty mission = medium then 20 else 30),
         gm_coinReward =
           (if tp_difficulty mission = easy then 5
            else if tp_difficulty mission = medium then 10 else 15),
         gm_estimatedTime = tp_estimatedTime mission,
         gm_type = habit,
         gm_isCompleted = False,
         gm_streak = None \<rparr>,
       snd (nextPick rng)))"

definition fitnessMissions :: "JsNumber \<Rightarrow> MissionTemplate list" where
  "fitnessMissions currentLevel =
     [\<lparr> tp_title = ''Strength Builder'',
        tp_description =
          (if jsLess currentLevel (Fin 4) then ''Do 5 push-ups (knee push-ups if needed)''
           else ''Do 15 push-ups''),
        tp_difficulty = (if jsLess currentLevel (Fin 4) then easy else medium),
        tp_estimatedTime = 3 \<rparr>,
      \<lparr> tp_title = ''Cardio Burst'',
        tp_description =
          (if jsLess currentLevel (Fin 4) then ''Walk briskly for 10 minutes''
           else ''Run/jog for 15 minutes''),
        tp_difficulty = (if jsLess currentLevel (Fin 4) then easy else medium),
        tp_estimatedTime = (if jsLess currentLevel (Fin 4) then 10 else 15) \<rparr>,
      \<lparr> tp_title = ''Flexibility Flow'',
        tp_description = ''Do 5 minutes of stretching or yoga'',
        tp_difficulty = easy, tp_estimatedTime = 5 \<rparr>]"

definition createFitnessMission :: "User \<Rightarrow> Date \<Rightarrow> Rng \<Rightarrow> GameMission \<times> Rng" where
  "createFitnessMission user now rng =
     (let currentLevel = ub_physicalFitness (u_baseline user);
          mission = fitnessMissions currentLevel ! pickIndex (fst (nextPick rng)) in
      (\<lparr> gm_id = ''fitness_'' @ showInt now,
         gm_title = tp_title mission,
         gm_description = tp_description mission,
         gm_category = ''fitness'',
         gm_difficulty = tp_difficulty mission,
         gm_xpReward =
           (if tp_difficulty mission = easy then 15
            else if tp_difficulty mission = medium then 25 else 35),
         gm_coinReward =
           (if tp_difficulty mission = easy then 8
            else if tp_difficulty mission = medium then 12 else 18),
         gm_estimatedTime = tp_estimatedTime mission,
         gm_type = habit,
         gm_isCompleted = False,
         gm_streak = None \<rparr>,
       snd (nextPick rng)))"

definition nutritionMissions :: "MissionTemplate list" where
  "nutritionMissions =
     [\<lparr> tp_title = ''Veggie Power'',
        tp_description = ''Eat at least 3 servings of vegetables today'',
        tp_difficulty = medium, tp_estimatedTime = 0 \<rparr>,
      \<lparr> tp_title = ''Fruit First'',
        tp_description = ''Eat a piece of fruit before lunch'',
        tp_difficulty = easy, tp_estimatedTime = 5 \<rparr>,
      \<lparr> tp_title = ''Skip the Processed'',
        tp_description = ''Avoid processed snacks for the entire day'',
        tp_difficulty = hard, tp_estimatedTime = 0 \<rparr>]"

definition createNutritionMission :: "User \<Rightarrow> Date \<Rightarrow> Rng \<Rightarrow> GameMission \<times> Rng" where
  "createNutritionMission user now rng =
     (let mission = nutritionMissions ! pickIndex (fst (nextPick rng)) in
      (\<lparr> gm_id = ''nutrition_'' @ showInt now,
         gm_title = tp_title mission,
         gm_description = tp_description mission,
         gm_category = ''nutrition'',
         gm_difficulty = tp_difficulty mission,
         gm_xpReward =
           (if tp_difficulty mission = easy then 12
            else if tp_difficulty mission = medium then 22 else 32),
         gm_coinReward =
           (if tp_difficulty mission = easy then 6
            else if tp_difficulty mission = medium then 11 else 16),
         gm_estimatedTime = tp_estimatedTime mission,
         gm_type = habit,
         gm_isCompleted = False,
         gm_streak = None \<rparr>,
       snd (nextPick rng)))"

definition createSleepMission :: "User \<Rightarrow> Date \<Rightarrow> GameMission" where
  "createSleepMission user now =
     \<lparr> gm_id = ''sleep_'' @ showInt now,
       gm_title = ''Sleep Optimization'',
       gm_description = ''Set a bedtime alarm and put away devices 1 hour before bed'',
       gm_category = ''sleep'',
       gm_difficulty = medium,
       gm_xpReward = 18,
       gm_coinReward = 9,
       gm_estimatedTime = 5,
       gm_type = habit,
       gm_isCompleted = False,
       gm_streak = None \<rparr>"

definition stressMissions :: "MissionTemplate list" where
  "stressMissions =
     [\<lparr> tp_title = ''Mindful Moment'',
        tp_description = ''Practice 5 minutes of deep breathing or meditation'',
        tp_difficulty = easy, tp_estimatedTime = 5 \<rparr>,
      \<lparr> tp_title = ''Gratitude Practice'',
        tp_description = ''Write down 3 things you're grateful for'',
        tp_difficulty = easy, tp_estimatedTime = 3 \<rparr>,
      \<lparr> tp_title = ''Stress Release'',
        tp_description = ''Listen to calming music for 10 minutes'',
        tp_difficulty = easy, tp_estimatedTime = 10 \<rparr>]"

definition createStressMission :: "User \<Rightarrow> Date \<Rightarrow> Rng \<Rightarrow> GameMission \<times> Rng" where
  "createStressMission user now rng =
     (let mission = stressMissions ! pickIndex (fst (nextPick rng)) in
      (\<lparr> gm_id = ''stress_'' @ showInt now,
         gm_title = tp_title mission,
         gm_description = tp_description mission,
         gm_category = ''stress'',
         gm_difficulty = tp_difficulty mission,
         gm_xpReward = 10,
         gm_coinReward = 5,
         gm_estimatedTime = tp_estimatedTime mission,
         gm_type = habit,
         gm_isCompleted = False,
         gm_streak = None \<rparr>,
       snd (nextPick rng)))"

definition varietyMissions :: "VarietyTemplate list" where
  "varietyMissions =
     [\<lparr> tp_title = ''Learn Something New'',
        tp_description = ''Spend 10 minutes learning about health and wellness'',
        tp_difficulty = easy, tp_estimatedTime = 10, tp_category = ''learning'' \<rparr>,
      \<lparr> tp_title = ''Nature Connection'',
        tp_description = ''Spend 15 minutes in nature or by a window'',
        tp_difficulty = easy, tp_estimatedTime = 15, tp_category = ''wellness'' \<rparr>,
      \<lparr> tp_title = ''Social Wellness'',
        tp_description = ''Have a meaningful conversation with someone'',
        tp_difficulty = medium, tp_estimatedTime = 20, tp_category = ''social'' \<rparr>]"

definition createVarietyMission :: "User \<Rightarrow> Date \<Rightarrow> Rng \<Rightarrow> GameMission \<times> Rng" where
  "createVarietyMission user now rng =
     (let mission = varietyMissions ! pickIndex (fst (nextPick rng)) in
      (\<lparr> gm_id = ''variety_'' @ showInt now,
         gm_title = tp_title mission,
         gm_description = tp_description mission,
         gm_category = tp_category mission,
         gm_difficulty = tp_difficulty mission,
         gm_xpReward =
           (if tp_difficulty mission = easy then 8
            else if tp_difficulty mission = medium then 15 else 25),
         gm_coinReward =
           (if tp_difficulty mission = easy then 4
            else if tp_difficulty mission = medium then 7 else 12),
         gm_estimatedTime = tp_estimatedTime mission,
         gm_type = habit,
         gm_isCompleted = False,
         gm_streak = None \<rparr>,
       snd (nextPick rng)))"

text \<open>
  The loop \<open>while (missions.length < missionCount) missions.push(createVarietyMission(user))\<close>.
\<close>

function fillVariety ::
  "User \<Rightarrow> Date \<Rightarrow> nat \<Rightarrow> GameMission list \<Rightarrow> Rng \<Rightarrow> GameMission list \<times> Rng" where
  "fillVariety user now missionCount missions rng =
     (if length missions < missionCount then
        fillVariety user now missionCount
          (missions @ [fst (createVarietyMission user now rng)])
          (snd (createVarietyMission user now rng))
      else (missions, rng))"
  by pat_completeness auto
termination
  by (relation "measure (\<lambda>(user, now, missionCount, missions, rng). missionCount - length missions)")
     auto

text \<open>
  \<open>pushWhen c factory (missions, rng)\<close> is \<open>if (c) missions.push(factory(user))\<close> for a factory
  that draws from the generator.
\<close>

definition pushWhen ::
  "bool \<Rightarrow> (Rng \<Rightarrow> GameMission \<times> Rng) \<Rightarrow> GameMission list \<times> Rng \<Rightarrow> GameMission list \<times> Rng" where
  "pushWhen c factory state =
     (if c then (fst state @ [fst (factory (snd state))], snd (factory (snd state)))
      else state)"

definition generateDailyMissions ::
  "HealthVitalityApp \<Rightarrow> string \<Rightarrow> Date \<Rightarrow> Rng \<Rightarrow> GameMission list \<times> Rng" where
  "generateDailyMissions app userId now rng =
     (case getUser app userId of
        None \<Rightarrow> ([], rng)
      | Some user \<Rightarrow>
          (let missionCount = min (3 + level (u_progress user) div 5) 7;
               s1 = pushWhen
                      (jsGreater (threeMonths (ug_energyLevel (u_goals user)))
                                 (ub_energyLevel (u_baseline user)))
                      (createEnergyMission user now) ([], rng);
               s2 = pushWhen
                      (jsGreater (threeMonths (ug_physicalFitness (u_goals user)))
                                 (ub_physicalFitness (u_baseline user)))
                      (createFitnessMission user now) s1;
               s3 = pushWhen (jsLess (ub_nutritionQuality (u_baseline user)) (Fin 7))
                      (createNutritionMission user now) s2;
               s4 = (if jsLess (ub_sleepQuality (u_baseline user)) (Fin 8)
                     then (fst s3 @ [createSleepMission user now], snd s3) else s3);
               s5 = pushWhen (jsLess (ub_stressManagement (u_baseline user)) (Fin 7))
                      (createStressMission user now) s4;
               s6 = fillVariety user now missionCount (fst s5) (snd s5)
           in (take missionCount (fst s6), snd s6)))"

subsection \<open>Mission completion and rewards\<close>

definition checkLevelUp :: "User \<Rightarrow> bool \<times> User" where
  "checkLevelUp user =
     (let xpRequired = level (u_progress user) * 100 in
      if xp (u_progress user) \<ge> xpRequired then
        (let p1 = (u_progress user)\<lparr>level := level (u_progress user) + 1\<rparr>;
             p2 = p1\<lparr>coins := coins p1 + level p1 * 10\<rparr>
         in (True, user\<lparr>u_progress := p2\<rparr>))
      else (False, user))"

text \<open>
  The \<open>switch\<close> of \<open>checkAchievements\<close>: whether one requirement sets
  \<open>requirementsMet\<close> to false. Only \<open>total_missions\<close> and \<open>streak\<close> have a case;
  \<open>streaks[requirement.category || 'any'] || 0\<close> reads 0 for a category with no counter.
\<close>

definition requirementFails :: "UserProgress \<Rightarrow> Requirement \<Rightarrow> bool" where
  "requirementFails progress requirement =
     (case rq_type requirement of
        req_total_missions \<Rightarrow> length (completedMissions progress) < rq_value requirement
      | req_streak \<Rightarrow>
          (let key = (case rq_category requirement of
                        None \<Rightarrow> ''any''
                      | Some c \<Rightarrow> if c = [] then ''any'' else c);
               categoryStreak = (case streaks progress key of None \<Rightarrow> 0 | Some n \<Rightarrow> n)
           in categoryStreak < rq_value requirement)
      | req_category_progress \<Rightarrow> False
      | req_goal_reached \<Rightarrow> False)"

text \<open>The inner loop: \<open>requirementsMet\<close> starts true and a failing requirement clears it.\<close>

definition requirementsMet :: "UserProgress \<Rightarrow> Requirement list \<Rightarrow> bool" where
  "requirementsMet progress requirements =
     foldl (\<lambda>met requirement. if requirementFails progress requirement then False else met)
       True requirements"

text \<open>
  The outer loop of \<open>checkAchievements\<close> over the achievement table. It returns the
  table (an unlocked achievement gets its \<open>unlockedAt\<close>), the array \<open>newAchievements\<close>
  and the user.
\<close>

fun checkAchievementsLoop ::
  "Date \<Rightarrow> Achievement list \<Rightarrow> User \<Rightarrow> Achievement list \<times> Achievement list \<times> User" where
  "checkAchievementsLoop now [] user = ([], [], user)"
| "checkAchievementsLoop now (achievement # rest) user =
     (if ach_id achievement \<in> set (unlockedAchievements (u_progress user)) then
        (case checkAchievementsLoop now rest user of
           (table, newAchievements, user') \<Rightarrow> (achievement # table, newAchievements, user'))
      else if requirementsMet (u_progress user) (ach_requirements achievement) then
        (let p1 = (u_progress user)
                    \<lparr>unlockedAchievements :=
                       unlockedAchievements (u_progress user) @ [ach_id achievement]\<rparr>;
             p2 = p1\<lparr>xp := xp p1 + ach_xpReward achievement\<rparr>;
             unlocked = achievement\<lparr>ach_unlockedAt := Some now\<rparr>
         in case checkAchievementsLoop now rest (user\<lparr>u_progress := p2\<rparr>) of
              (table, newAchievements, user') \<Rightarrow>
                (unlocked # table, unlocked # newAchievements, user'))
      else
        (case checkAchievementsLoop now rest user of
           (table, newAchievements, user') \<Rightarrow> (achievement # table, newAchievements, user')))"

definition checkAchievements ::
  "HealthVitalityApp \<Rightarrow> User \<Rightarrow> Date \<Rightarrow> Achievement list \<times> HealthVitalityApp \<times> User" where
  "checkAchievements app user now =
     (case checkAchievementsLoop now (achievements app) user of
        (table, newAchievements, user') \<Rightarrow>
          (newAchievements, app\<lparr>achievements := table\<rparr>, user'))"

text \<open>
  \<open>awardCompletion\<close> is the four assignments of \<open>completeMission\<close> that come before
  the two checks: the flat reward, the log of completed missions and \<open>lastActive\<close>.
\<close>

definition awardCompletion :: "User \<Rightarrow> string \<Rightarrow> Date \<Rightarrow> User" where
  "awardCompletion user missionId now =
     (let xpGained = 20;
          coinsGained = 10;
          p1 = (u_progress user)\<lparr>xp := xp (u_progress user) + xpGained\<rparr>;
          p2 = p1\<lparr>coins := coins p1 + coinsGained\<rparr>;
          p3 = p2\<lparr>completedMissions := completedMissions p2 @ [missionId]\<rparr>;
          p4 = p3\<lparr>lastActive := now\<rparr>
      in user\<lparr>u_progress := p4\<rparr>)"

text \<open>
  \<open>completeMission\<close> changes the user object that the store holds; the model puts the
  changed user back under \<open>userId\<close>.
\<close>

definition completeMission ::
  "HealthVitalityApp \<Rightarrow> string \<Rightarrow> string \<Rightarrow> Date \<Rightarrow> bool \<times> HealthVitalityApp" where
  "completeMission app userId missionId now =
     (case getUser app userId of
        None \<Rightarrow> (False, app)
      | Some user \<Rightarrow>
          (let user1 = snd (checkLevelUp (awardCompletion user missionId now))
           in case checkAchievements app user1 now of
                (newAchievements, app1, user2) \<Rightarrow>
                  (True, app1\<lparr>users := (users app1)(userId \<mapsto> user2\<lparr>u_updatedAt := now\<rparr>)\<rparr>)))"

subsection \<open>Progress tracking\<close>

definition calculateGoalProgress :: "JsNumber \<Rightarrow> JsNumber \<Rightarrow> JsNumber \<Rightarrow> JsNumber" where
  "calculateGoalProgress baseline target current =
     (if jsStrictEq target baseline then Fin 100
      else jsMin (Fin 100)
             (jsMax (Fin 0)
                (jsMul (jsDiv (jsSub current baseline) (jsSub target baseline)) (Fin 100))))"

record UserSummary =
  us_name :: string
  us_level :: nat
  us_xp :: nat
  us_coins :: nat

record ReportStats =
  daysSinceStart :: int
  totalMissionsCompleted :: nat
  achievementsUnlocked :: nat
  currentStreaks :: "string \<rightharpoonup> nat"

record GoalProgress =
  gp_energy :: JsNumber
  gp_fitness :: JsNumber

record ProgressReport =
  pr_user :: UserSummary
  pr_stats :: ReportStats
  pr_goalProgress :: GoalProgress
  pr_recentAchievements :: "Achievement list"

text \<open>\<open>getProgressReport\<close> returns \<open>null\<close> (\<open>None\<close>) for an unknown user.\<close>

definition getProgressReport :: "HealthVitalityApp \<Rightarrow> string \<Rightarrow> Date \<Rightarrow> ProgressReport option" where
  "getProgressReport app userId now =
     (case getUser app userId of
        None \<Rightarrow> None
      | Some user \<Rightarrow>
          (let unlocked =
                 filter (\<lambda>a. ach_id a \<in> set (unlockedAchievements (u_progress user)))
                   (achievements app)
           in Some
             \<lparr> pr_user =
                 \<lparr> us_name = u_name user,
                   us_level = level (u_progress user),
                   us_xp = xp (u_progress user),
                   us_coins = coins (u_progress user) \<rparr>,
               pr_stats =
                 \<lparr> daysSinceStart = (now - u_createdAt user) div (1000 * 60 * 60 * 24),
                   totalMissionsCompleted = length (completedMissions (u_progress user)),
                   achievementsUnlocked = length (unlockedAchievements (u_progress user)),
                   currentStreaks = streaks (u_progress user) \<rparr>,
               pr_goalProgress =
                 \<lparr> gp_energy =
                     calculateGoalProgress (ub_energyLevel (u_baseline user))
                       (threeMonths (ug_energyLevel (u_goals user)))
                       (ub_energyLevel (u_baseline user)),
                   gp_fitness =
                     calculateGoalProgress (ub_physicalFitness (u_baseline user))
                       (threeMonths (ug_physicalFitness (u_goals user)))
                       (ub_physicalFitness (u_baseline user)) \<rparr>,
               pr_recentAchievements = drop (length unlocked - 3) unlocked \<rparr>))"

subsection \<open>API methods\<close>

text \<open>
  The API methods are \<open>async\<close>: a \<open>throw\<close> rejects the promise, which is the result
  \<open>Inl\<close>.
\<close>

record Dashboard =
  db_user :: UserSummary
  db_todaysMissions :: "GameMission list"
  db_progressReport :: "ProgressReport option"

definition getUserDashboard ::
  "HealthVitalityApp \<Rightarrow> string \<Rightarrow> Date \<Rightarrow> Rng \<Rightarrow> (AppError + Dashboard) \<times> Rng" where
  "getUserDashboard app userId now rng =
     (case getUser app userId of
        None \<Rightarrow> (Inl (Error ''User not found''), rng)
      | Some user \<Rightarrow>
          (Inr \<lparr> db_user =
                   \<lparr> us_name = u_name user,
                     us_level = level (u_progress user),
                     us_xp = xp (u_progress user),
                     us_coins = coins (u_progress user) \<rparr>,
                 db_todaysMissions = fst (generateDailyMissions app userId now rng),
                 db_progressReport = getProgressReport app userId now \<rparr>,
           snd (generateDailyMissions app userId now rng)))"

record SurveyResult =
  sv_success :: bool
  sv_userId :: string
  sv_initialMissions :: "GameMission list"

definition submitSurveyAndCreateUser ::
  "(string \<Rightarrow> JsNumber) \<Rightarrow> HealthVitalityApp \<Rightarrow> string \<Rightarrow> SurveyResponse list
     \<Rightarrow> Date \<Rightarrow> string \<Rightarrow> Rng \<Rightarrow> SurveyResult \<times> HealthVitalityApp \<times> Rng" where
  "submitSurveyAndCreateUser stringToNumber app name responses now randomPart rng =
     (case createUser stringToNumber app name responses now randomPart of
        (user, app1) \<Rightarrow>
          (\<lparr> sv_success = True,
             sv_userId = u_id user,
             sv_initialMissions = fst (generateDailyMissions app1 (u_id user) now rng) \<rparr>,
           app1,
           snd (generateDailyMissions app1 (u_id user) now rng)))"

record CompletionResult =
  cr_success :: bool
  cr_newProgress :: "ProgressReport option"
  cr_newAchievements :: "Achievement list"

definition completeMissionAPI ::
  "HealthVitalityApp \<Rightarrow> string \<Rightarrow> string \<Rightarrow> Date
     \<Rightarrow> (AppError + CompletionResult) \<times> HealthVitalityApp" where
  "completeMissionAPI app userId missionId now =
     (case completeMission app userId missionId now of
        (success, app1) \<Rightarrow>
          if \<not> success then (Inl (Error ''Failed to complete mission''), app1)
          else
            (Inr \<lparr> cr_success = True,
                   cr_newProgress = getProgressReport app1 userId now,
                   cr_newAchievements = [] \<rparr>,
             app1))"

subsection \<open>A sample run\<close>

text \<open>
  The usage example at the end of the source: the survey answers of Alex Smith, all of
  them numbers. \<open>onlySeven\<close> stands in for the runtime's string conversion where a run
  needs one: it reads the string \<open>7\<close> and nothing else.
\<close>

definition onlySeven :: "string \<Rightarrow> JsNumber" where
  "onlySeven s = (if s = ''7'' then Fin 7 else NaN)"

definition exampleResponses :: "SurveyResponse list" where
  "exampleResponses =
     [\<lparr> sr_questionId = ''baseline_energy'', sr_value = JNumber (Fin 4), sr_timestamp = 1000 \<rparr>,
      \<lparr> sr_questionId = ''baseline_fitness'', sr_value = JNumber (Fin 3), sr_timestamp = 1000 \<rparr>,
      \<lparr> sr_questionId = ''current_weight'', sr_value = JNumber (Fin 180), sr_timestamp = 1000 \<rparr>,
      \<lparr> sr_questionId = ''height'', sr_value = JNumber (Fin 70), sr_timestamp = 1000 \<rparr>,
      \<lparr> sr_questionId = ''goal_energy_3m'', sr_value = JNumber (Fin 7), sr_timestamp = 1000 \<rparr>,
      \<lparr> sr_questionId = ''goal_fitness_3m'', sr_value = JNumber (Fin 6), sr_timestamp = 1000 \<rparr>,
      \<lparr> sr_questionId = ''goal_weight_3m'', sr_value = JNumber (Fin 170), sr_timestamp = 1000 \<rparr>]"

text \<open>Two more answers to the energy question: the number 0 and a word.\<close>

definition zeroEnergyAnswer :: SurveyResponse where
  "zeroEnergyAnswer =
     \<lparr> sr_questionId = ''baseline_energy'', sr_value = JNumber (Fin 0), sr_timestamp = 1000 \<rparr>"

definition wordEnergyAnswer :: SurveyResponse where
  "wordEnergyAnswer =
     \<lparr> sr_questionId = ''baseline_energy'', sr_value = JString ''high'', sr_timestamp = 1000 \<rparr>"

definition alex :: User where
  "alex = fst (createUser onlySeven newApp ''Alex Smith'' exampleResponses 1000 ''k3j9x0q2z'')"

definition alexApp :: HealthVitalityApp where
  "alexApp = snd (createUser onlySeven newApp ''Alex Smith'' exampleResponses 1000 ''k3j9x0q2z'')"

text \<open>Alex at level 1 with 90 experience points, and the app that holds this user.\<close>

definition alexAt90 :: User where
  "alexAt90 = alex\<lparr>u_progress := (u_progress alex)\<lparr>xp := 90\<rparr>\<rparr>"

definition alexAt90App :: HealthVitalityApp where
  "alexAt90App = newApp\<lparr>users := (users newApp)(u_id alex \<mapsto> alexAt90)\<rparr>"

text \<open>Alex's app after the first and after the second completed mission.\<close>

definition alexAfterFirst :: HealthVitalityApp where
  "alexAfterFirst = snd (completeMission alexApp (u_id alex) ''energy_1000'' 2000)"

definition alexAfterSecond :: HealthVitalityApp where
  "alexAfterSecond = snd (completeMission alexAfterFirst (u_id alex) ''fitness_1000'' 3000)"

text \<open>A generator whose every pick is the third entry of a pool.\<close>

definition alwaysThird :: Rng where
  "alwaysThird = (\<lambda>n. pick2)"


definition hourBaseline :: FitnessBaseline where
  "hourBaseline = sampleBaseline\<lparr>fb_timeAvailable := 60\<rparr>"

definition negativeTimeBaseline :: FitnessBaseline where
  "negativeTimeBaseline = sampleBaseline\<lparr>fb_timeAvailable := -5\<rparr>"

section \<open>Properties of the questionnaire's plan\<close>

subsection \<open>The time scan and the sort\<close>

lemma totalTime_sum: "totalTime ms = sum_list (map dm_estimatedTime ms)"
proof -
  have "foldl (\<lambda>sum mission. sum + dm_estimatedTime mission) a ms = a + sum_list (map dm_estimatedTime ms)" for a
    by (induction ms arbitrary: a) (simp_all add: add.assoc)
  then show ?thesis by (simp add: totalTime_def)
qed

lemma keepWithinTime_bound:
  "keepWithinTime t c ms \<noteq> [] \<Longrightarrow> c + sum_list (map dm_estimatedTime (keepWithinTime t c ms)) \<le> t"
proof (induction ms arbitrary: c)
  case Nil then show ?case by simp
next
  case (Cons m ms)
  show ?case
  proof (cases "c + dm_estimatedTime m \<le> t")
    case True
    show ?thesis
    proof (cases "keepWithinTime t (c + dm_estimatedTime m) ms = []")
      case True
      with \<open>c + dm_estimatedTime m \<le> t\<close> show ?thesis by simp
    next
      case False
      from Cons.IH[OF False] True show ?thesis by (simp add: add.assoc)
    qed
  next
    case False
    with Cons show ?thesis by simp
  qed
qed

lemma keepWithinTime_subseq: "subseq (keepWithinTime t c ms) ms"
  by (induction ms arbitrary: c) auto

lemma keepWithinTime_all:
  "keepWithinTime t c (pre @ m # rest) = pre @ keepWithinTime t (c + sum_list (map dm_estimatedTime pre)) rest"
  if "keepWithinTime t c pre = pre" "\<not> c + sum_list (map dm_estimatedTime pre) + dm_estimatedTime m \<le> t"
  using that
proof (induction pre arbitrary: c)
  case Nil then show ?case by simp
next
  case (Cons p pre)
  have fit: "c + dm_estimatedTime p \<le> t"
  proof (rule ccontr)
    assume "\<not> ?thesis"
    then have "keepWithinTime t c (p # pre) = keepWithinTime t c pre" by simp
    with Cons.prems(1) have "keepWithinTime t c pre = p # pre" by simp
    moreover have "length (keepWithinTime t c pre) \<le> length pre"
      using keepWithinTime_subseq list_emb_length by blast
    ultimately show False by simp
  qed
  with Cons show ?case by (simp add: add.assoc)
qed

lemma keepWithinTime_keeps_prefix:
  "(\<And>n. 0 < n \<Longrightarrow> n \<le> length kept \<Longrightarrow>
        c + sum_list (map dm_estimatedTime (take n kept)) \<le> t) \<Longrightarrow>
     keepWithinTime t c kept = kept"
proof (induction kept arbitrary: c)
  case Nil
  show ?case by simp
next
  case (Cons x xs)
  have first: "c + dm_estimatedTime x \<le> t"
    using Cons.prems [of 1] by simp
  have "keepWithinTime t (c + dm_estimatedTime x) xs = xs"
  proof (rule Cons.IH)
    fix n assume "0 < n" "n \<le> length xs"
    then show "c + dm_estimatedTime x + sum_list (map dm_estimatedTime (take n xs)) \<le> t"
      using Cons.prems [of "Suc n"] by (simp add: add.assoc)
  qed
  with first show ?case by simp
qed

lemma keepWithinTime_skips:
  "\<forall>m \<in> set skipped. \<not> c + dm_estimatedTime m \<le> t \<Longrightarrow>
     keepWithinTime t c (skipped @ xs) = keepWithinTime t c xs"
  by (induction skipped) simp_all

lemma keepWithinTime_flags:
  "\<exists>keep. length keep = length xs
     \<and> keepWithinTime t c xs = map fst (filter snd (zip xs keep))
     \<and> (\<forall>n < length xs.
           keep ! n =
             (c + sum_list (map dm_estimatedTime
                    (map fst (filter snd (zip (take n xs) (take n keep)))))
                + dm_estimatedTime (xs ! n) \<le> t))"
proof (induction xs arbitrary: c)
  case Nil
  show ?case by simp
next
  case (Cons x xs)
  let ?b = "c + dm_estimatedTime x \<le> t"
  let ?c' = "if ?b then c + dm_estimatedTime x else c"
  from Cons.IH [of ?c'] obtain keep where k:
    "length keep = length xs"
    "keepWithinTime t ?c' xs = map fst (filter snd (zip xs keep))"
    "\<forall>n < length xs.
           keep ! n =
             (?c' + sum_list (map dm_estimatedTime
                    (map fst (filter snd (zip (take n xs) (take n keep)))))
                + dm_estimatedTime (xs ! n) \<le> t)"
    by blast
  have len: "length (?b # keep) = length (x # xs)" using k(1) by simp
  have res: "keepWithinTime t c (x # xs) = map fst (filter snd (zip (x # xs) (?b # keep)))"
    using k(2) by (cases ?b) simp_all
  have flags: "\<forall>n < length (x # xs).
           (?b # keep) ! n =
             (c + sum_list (map dm_estimatedTime
                    (map fst (filter snd (zip (take n (x # xs)) (take n (?b # keep))))))
                + dm_estimatedTime ((x # xs) ! n) \<le> t)"
  proof (intro allI impI)
    fix n assume n: "n < length (x # xs)"
    show "(?b # keep) ! n =
             (c + sum_list (map dm_estimatedTime
                    (map fst (filter snd (zip (take n (x # xs)) (take n (?b # keep))))))
                + dm_estimatedTime ((x # xs) ! n) \<le> t)"
    proof (cases n)
      case 0
      then show ?thesis by simp
    next
      case (Suc j)
      with n have "j < length xs" by simp
      with k(3) have "keep ! j =
             (?c' + sum_list (map dm_estimatedTime
                    (map fst (filter snd (zip (take j xs) (take j keep)))))
                + dm_estimatedTime (xs ! j) \<le> t)"
        by blast
      with Suc show ?thesis by (simp add: add.assoc)
    qed
  qed
  from len res flags show ?case by blast
qed

lemma sortByPriority_set: "set (sortByPriority order ms) = set ms"
  by (simp add: sortByPriority_def)


lemma prioritizeMissions_subset: "set (prioritizeMissions ms b g) \<subseteq> set ms"
proof (cases "totalTime ms > fb_timeAvailable b")
  case True
  have "set (keepWithinTime t c xs) \<subseteq> set xs" for t c xs
    by (induction xs arbitrary: c) auto
  then have "set (keepWithinTime (fb_timeAvailable b) 0 (sortByPriority (priorityOrder (fg_primaryGoal g)) ms))
      \<subseteq> set (sortByPriority (priorityOrder (fg_primaryGoal g)) ms)" .
  with True show ?thesis
    by (simp add: prioritizeMissions_def sortByPriority_set)
next
  case False
  then show ?thesis by (simp add: prioritizeMissions_def)
qed


lemma candidate_cases:
  "m \<in> set (candidateMissions b g) \<Longrightarrow>
     m = strengthMission001 b \<or> m = strengthMission002 \<or> m = cardioMission b
       \<or> m = flexibilityMission \<or> m = recoveryMission"
  by (auto simp: candidateMissions_def Let_def split: if_splits)

lemma categories [simp]:
  "dm_category (strengthMission001 b) = strength"
  "dm_category strengthMission002 = strength"
  "dm_category (cardioMission b) = cardio"
  "dm_category flexibilityMission = flexibility"
  "dm_category recoveryMission = recovery"
  by (simp_all add: strengthMission001_def strengthMission002_def cardioMission_def
      flexibilityMission_def recoveryMission_def Let_def)



subsection \<open>The sample sessions, evaluated\<close>

lemma sample_candidates:
  "candidateMissions sampleBaseline sampleGoals =
     [strengthMission002, cardioMission sampleBaseline, recoveryMission]"
  by (simp add: candidateMissions_def sampleBaseline_def sampleGoals_def Let_def)

lemma sample_cardio_time: "dm_estimatedTime (cardioMission sampleBaseline) = 18"
  by (simp add: cardioMission_def sampleBaseline_def Let_def)

lemma fixed_times:
  "dm_estimatedTime strengthMission002 = 20"
  "dm_estimatedTime flexibilityMission = 15"
  "dm_estimatedTime recoveryMission = 10"
  by (simp_all add: strengthMission002_def flexibilityMission_def recoveryMission_def)

lemma sample_sorted:
  "sortByPriority (priorityOrder (fg_primaryGoal sampleGoals))
       (candidateMissions sampleBaseline sampleGoals)
    = [cardioMission sampleBaseline, strengthMission002, recoveryMission]"
proof -
  have g: "fg_primaryGoal sampleGoals = weight_loss" by (simp add: sampleGoals_def)
  show ?thesis
    by (simp add: g sample_candidates sortByPriority_def priorityOrder_def)
qed

lemma sample_total: "totalTime (candidateMissions sampleBaseline sampleGoals) = 48"
  by (simp add: sample_candidates totalTime_def sample_cardio_time fixed_times)

lemma sample_time: "fb_timeAvailable sampleBaseline = 30"
  by (simp add: sampleBaseline_def)

lemma sample_plan:
  "prioritizeMissions (candidateMissions sampleBaseline sampleGoals) sampleBaseline sampleGoals
     = [cardioMission sampleBaseline, recoveryMission]"
  by (simp add: prioritizeMissions_def sample_total sample_sorted sample_time
        sample_cardio_time fixed_times)

lemma hour_candidates:
  "candidateMissions hourBaseline sampleGoals =
     [strengthMission002, cardioMission hourBaseline, recoveryMission]"
  by (simp add: candidateMissions_def hourBaseline_def sampleBaseline_def sampleGoals_def Let_def)

lemma hour_cardio_time: "dm_estimatedTime (cardioMission hourBaseline) = 30"
  by (simp add: cardioMission_def hourBaseline_def sampleBaseline_def Let_def)


subsection \<open>C5: a plan that fits is returned as generated\<close>

text \<open>
  Claim C5. For every mission list whose total \<open>estimatedTime\<close> is at most
  \<open>baseline.timeAvailable\<close>, \<open>prioritizeMissions\<close> returns the list it was given: the same
  missions in the order of generation, nothing sorted, nothing dropped.
\<close>

theorem prioritizeMissions_unchanged:
  "totalTime missions \<le> fb_timeAvailable baseline \<Longrightarrow>
     prioritizeMissions missions baseline goals = missions"
  by (simp add: prioritizeMissions_def)


text \<open>
  The sample session with an hour a day: the three candidates take 20 + 30 + 10 minutes
  and come back in the order of generation.
\<close>

theorem prioritizeMissions_unchanged_witness:
  "totalTime (candidateMissions hourBaseline sampleGoals) \<le> fb_timeAvailable hourBaseline
   \<and> prioritizeMissions (candidateMissions hourBaseline sampleGoals) hourBaseline sampleGoals
       = [strengthMission002, cardioMission hourBaseline, recoveryMission]"
proof -
  have t: "fb_timeAvailable hourBaseline = 60" by (simp add: hourBaseline_def)
  have fits: "totalTime (candidateMissions hourBaseline sampleGoals)
                \<le> fb_timeAvailable hourBaseline"
    by (simp add: hour_candidates totalTime_def hour_cardio_time fixed_times t)
  from prioritizeMissions_unchanged [OF fits, of sampleGoals] fits
  show ?thesis by (simp add: hour_candidates)
qed


subsection \<open>C1: what the scan keeps when the plan does not fit\<close>

text \<open>
  Claim C1 says that the kept missions are a prefix of the sorted list: that once a
  mission is dropped, no later one is kept. The sample session refutes it. The
  candidates take 48 minutes of the 30 available; sorted for weight loss they are cardio
  (18), strength (20), recovery (10). Strength is dropped, since 18 + 20 exceeds 30, and
  recovery, which comes after it, is kept, since 18 + 10 does not.
\<close>

theorem prioritizeMissions_prefix_counterexample:
  "fb_timeAvailable sampleBaseline < totalTime (candidateMissions sampleBaseline sampleGoals)
   \<and> sortByPriority (priorityOrder (fg_primaryGoal sampleGoals))
        (candidateMissions sampleBaseline sampleGoals)
       = [cardioMission sampleBaseline, strengthMission002, recoveryMission]
   \<and> prioritizeMissions (candidateMissions sampleBaseline sampleGoals) sampleBaseline sampleGoals
       = [cardioMission sampleBaseline, recoveryMission]
   \<and> \<not> prefix
         (prioritizeMissions (candidateMissions sampleBaseline sampleGoals)
            sampleBaseline sampleGoals)
         (sortByPriority (priorityOrder (fg_primaryGoal sampleGoals))
            (candidateMissions sampleBaseline sampleGoals))"
proof -
  have "recoveryMission \<noteq> strengthMission002"
    by (simp add: recoveryMission_def strengthMission002_def)
  then show ?thesis
    by (simp add: sample_plan sample_sorted sample_total sample_time)
qed


text \<open>
  Claim C1, amended. For every mission list whose total \<open>estimatedTime\<close> exceeds
  \<open>baseline.timeAvailable\<close>, the kept missions are a subsequence of the list sorted by
  the goal's category order, and a mission of that list is kept exactly when its time,
  added to the total of the missions kept before it, stays within the budget. So the
  missions before the first one whose inclusion would exceed the budget are all kept (when
  each of their running totals is within the budget) and that one is dropped; the scan
  then goes on with the running total unchanged: the missions after it that do not fit on
  that total are dropped too, and the first one that does fit is kept. The kept missions
  need not be a prefix of the sorted list.
\<close>

theorem prioritizeMissions_scan:
  "fb_timeAvailable baseline < totalTime missions \<Longrightarrow>
     subseq (prioritizeMissions missions baseline goals)
       (sortByPriority (priorityOrder (fg_primaryGoal goals)) missions)
   \<and> (\<exists>keep.
         length keep = length (sortByPriority (priorityOrder (fg_primaryGoal goals)) missions)
       \<and> prioritizeMissions missions baseline goals
           = map fst (filter snd
               (zip (sortByPriority (priorityOrder (fg_primaryGoal goals)) missions) keep))
       \<and> (\<forall>n < length (sortByPriority (priorityOrder (fg_primaryGoal goals)) missions).
             keep ! n =
               (totalTime (map fst (filter snd
                   (zip (take n (sortByPriority (priorityOrder (fg_primaryGoal goals)) missions))
                        (take n keep))))
                  + dm_estimatedTime
                      (sortByPriority (priorityOrder (fg_primaryGoal goals)) missions ! n)
                \<le> fb_timeAvailable baseline)))
   \<and> (\<forall>kept mission rest.
         sortByPriority (priorityOrder (fg_primaryGoal goals)) missions = kept @ mission # rest
         \<and> (\<forall>n. 0 < n \<and> n \<le> length kept \<longrightarrow>
                totalTime (take n kept) \<le> fb_timeAvailable baseline)
         \<and> fb_timeAvailable baseline < totalTime kept + dm_estimatedTime mission
         \<longrightarrow> (\<exists>later.
                prioritizeMissions missions baseline goals = kept @ later
              \<and> subseq later rest
              \<and> (\<forall>skipped fitting rest'.
                    rest = skipped @ fitting # rest'
                    \<and> (\<forall>m \<in> set skipped.
                          fb_timeAvailable baseline < totalTime kept + dm_estimatedTime m)
                    \<and> totalTime kept + dm_estimatedTime fitting \<le> fb_timeAvailable baseline
                    \<longrightarrow> (\<exists>later'. later = fitting # later' \<and> subseq later' rest'))))"
proof (intro conjI allI impI)
  let ?t = "fb_timeAvailable baseline"
  let ?s = "sortByPriority (priorityOrder (fg_primaryGoal goals)) missions"
  assume over: "?t < totalTime missions"
  then have res: "prioritizeMissions missions baseline goals = keepWithinTime ?t 0 ?s"
    by (simp add: prioritizeMissions_def)
  show "subseq (prioritizeMissions missions baseline goals) ?s"
    by (simp add: res keepWithinTime_subseq)
  from keepWithinTime_flags [of ?s ?t 0]
  show "\<exists>keep. length keep = length ?s
       \<and> prioritizeMissions missions baseline goals = map fst (filter snd (zip ?s keep))
       \<and> (\<forall>n < length ?s.
             keep ! n =
               (totalTime (map fst (filter snd (zip (take n ?s) (take n keep))))
                  + dm_estimatedTime (?s ! n) \<le> ?t))"
    by (simp add: res totalTime_sum)
  fix kept mission rest
  assume h: "?s = kept @ mission # rest
         \<and> (\<forall>n. 0 < n \<and> n \<le> length kept \<longrightarrow> totalTime (take n kept) \<le> ?t)
         \<and> ?t < totalTime kept + dm_estimatedTime mission"
  then have split: "?s = kept @ mission # rest"
    and fits: "\<And>n. 0 < n \<Longrightarrow> n \<le> length kept \<Longrightarrow>
                 0 + sum_list (map dm_estimatedTime (take n kept)) \<le> ?t"
    and drop: "\<not> 0 + sum_list (map dm_estimatedTime kept) + dm_estimatedTime mission \<le> ?t"
    by (simp_all add: totalTime_sum)
  have all: "keepWithinTime ?t 0 kept = kept"
    using fits by (rule keepWithinTime_keeps_prefix)
  let ?later = "keepWithinTime ?t (totalTime kept) rest"
  have r: "prioritizeMissions missions baseline goals = kept @ ?later"
    using keepWithinTime_all [OF all drop, of rest] by (simp add: res split totalTime_sum)
  have sub: "subseq ?later rest" by (rule keepWithinTime_subseq)
  have resumed: "\<forall>skipped fitting rest'.
                    rest = skipped @ fitting # rest'
                    \<and> (\<forall>m \<in> set skipped. ?t < totalTime kept + dm_estimatedTime m)
                    \<and> totalTime kept + dm_estimatedTime fitting \<le> ?t
                    \<longrightarrow> (\<exists>later'. ?later = fitting # later' \<and> subseq later' rest')"
  proof (intro allI impI)
    fix skipped fitting rest'
    assume a: "rest = skipped @ fitting # rest'
                    \<and> (\<forall>m \<in> set skipped. ?t < totalTime kept + dm_estimatedTime m)
                    \<and> totalTime kept + dm_estimatedTime fitting \<le> ?t"
    then have "\<forall>m \<in> set skipped. \<not> totalTime kept + dm_estimatedTime m \<le> ?t"
      by (simp add: not_le)
    then have "?later = keepWithinTime ?t (totalTime kept) (fitting # rest')"
      using a keepWithinTime_skips by simp
    with a have "?later = fitting # keepWithinTime ?t (totalTime kept + dm_estimatedTime fitting) rest'"
      by simp
    then show "\<exists>later'. ?later = fitting # later' \<and> subseq later' rest'"
      using keepWithinTime_subseq by blast
  qed
  from r sub resumed
  show "\<exists>later.
                prioritizeMissions missions baseline goals = kept @ later
              \<and> subseq later rest
              \<and> (\<forall>skipped fitting rest'.
                    rest = skipped @ fitting # rest'
                    \<and> (\<forall>m \<in> set skipped. ?t < totalTime kept + dm_estimatedTime m)
                    \<and> totalTime kept + dm_estimatedTime fitting \<le> ?t
                    \<longrightarrow> (\<exists>later'. later = fitting # later' \<and> subseq later' rest'))"
    by blast
qed

text \<open>
  The sample session: cardio (18) is kept, strength (20) is the first drop, and recovery
  (10), which comes after it, fits on the 18 minutes kept: the plan is cardio and recovery.
\<close>

theorem prioritizeMissions_scan_witness:
  "fb_timeAvailable sampleBaseline < totalTime (candidateMissions sampleBaseline sampleGoals)
   \<and> sortByPriority (priorityOrder (fg_primaryGoal sampleGoals))
        (candidateMissions sampleBaseline sampleGoals)
       = [cardioMission sampleBaseline] @ strengthMission002 # [] @ recoveryMission # []
   \<and> totalTime [cardioMission sampleBaseline] \<le> fb_timeAvailable sampleBaseline
   \<and> fb_timeAvailable sampleBaseline
       < totalTime [cardioMission sampleBaseline] + dm_estimatedTime strengthMission002
   \<and> totalTime [cardioMission sampleBaseline] + dm_estimatedTime recoveryMission
       \<le> fb_timeAvailable sampleBaseline
   \<and> prioritizeMissions (candidateMissions sampleBaseline sampleGoals) sampleBaseline sampleGoals
       = [cardioMission sampleBaseline, recoveryMission]
   \<and> subseq
         (prioritizeMissions (candidateMissions sampleBaseline sampleGoals)
            sampleBaseline sampleGoals)
         (sortByPriority (priorityOrder (fg_primaryGoal sampleGoals))
            (candidateMissions sampleBaseline sampleGoals))"
proof -
  let ?t = "fb_timeAvailable sampleBaseline"
  let ?s = "sortByPriority (priorityOrder (fg_primaryGoal sampleGoals))
              (candidateMissions sampleBaseline sampleGoals)"
  let ?r = "prioritizeMissions (candidateMissions sampleBaseline sampleGoals)
              sampleBaseline sampleGoals"
  have over: "?t < totalTime (candidateMissions sampleBaseline sampleGoals)"
    by (simp add: sample_total sample_time)
  have split: "?s = [cardioMission sampleBaseline] @ strengthMission002 # [] @ recoveryMission # []"
    by (simp add: sample_sorted)
  have one: "totalTime [cardioMission sampleBaseline] = 18"
    by (simp add: totalTime_def sample_cardio_time)
  have fits: "totalTime [cardioMission sampleBaseline] \<le> ?t"
    by (simp add: one sample_time)
  have prefixes: "\<forall>n. 0 < n \<and> n \<le> length [cardioMission sampleBaseline] \<longrightarrow>
                    totalTime (take n [cardioMission sampleBaseline]) \<le> ?t"
    using fits by simp
  have first: "?t < totalTime [cardioMission sampleBaseline] + dm_estimatedTime strengthMission002"
    by (simp add: one sample_time fixed_times)
  have later: "totalTime [cardioMission sampleBaseline] + dm_estimatedTime recoveryMission \<le> ?t"
    by (simp add: one sample_time fixed_times)
  note scan = prioritizeMissions_scan [OF over, of sampleGoals]
  from scan have sub: "subseq ?r ?s" by (rule conjunct1)
  from scan have "\<forall>kept mission rest.
         ?s = kept @ mission # rest
         \<and> (\<forall>n. 0 < n \<and> n \<le> length kept \<longrightarrow> totalTime (take n kept) \<le> ?t)
         \<and> ?t < totalTime kept + dm_estimatedTime mission
         \<longrightarrow> (\<exists>later.
                ?r = kept @ later
              \<and> subseq later rest
              \<and> (\<forall>skipped fitting rest'.
                    rest = skipped @ fitting # rest'
                    \<and> (\<forall>m \<in> set skipped. ?t < totalTime kept + dm_estimatedTime m)
                    \<and> totalTime kept + dm_estimatedTime fitting \<le> ?t
                    \<longrightarrow> (\<exists>later'. later = fitting # later' \<and> subseq later' rest')))"
    by (elim conjE)
  then have "?s = [cardioMission sampleBaseline] @ strengthMission002 # ([] @ recoveryMission # [])
         \<and> (\<forall>n. 0 < n \<and> n \<le> length [cardioMission sampleBaseline] \<longrightarrow>
                totalTime (take n [cardioMission sampleBaseline]) \<le> ?t)
         \<and> ?t < totalTime [cardioMission sampleBaseline] + dm_estimatedTime strengthMission002
         \<longrightarrow> (\<exists>later.
                ?r = [cardioMission sampleBaseline] @ later
              \<and> subseq later ([] @ recoveryMission # [])
              \<and> (\<forall>skipped fitting rest'.
                    [] @ recoveryMission # [] = skipped @ fitting # rest'
                    \<and> (\<forall>m \<in> set skipped.
                          ?t < totalTime [cardioMission sampleBaseline] + dm_estimatedTime m)
                    \<and> totalTime [cardioMission sampleBaseline] + dm_estimatedTime fitting \<le> ?t
                    \<longrightarrow> (\<exists>later'. later = fitting # later' \<and> subseq later' rest')))"
    by (elim allE)
  with split prefixes first obtain later where l:
    "?r = [cardioMission sampleBaseline] @ later"
    "\<forall>skipped fitting rest'.
        [] @ recoveryMission # [] = skipped @ fitting # rest'
        \<and> (\<forall>m \<in> set skipped.
              ?t < totalTime [cardioMission sampleBaseline] + dm_estimatedTime m)
        \<and> totalTime [cardioMission sampleBaseline] + dm_estimatedTime fitting \<le> ?t
        \<longrightarrow> (\<exists>later'. later = fitting # later' \<and> subseq later' rest')"
    by auto
  from l(2) [rule_format, of "[]" recoveryMission "[]"] later
  have "\<exists>later'. later = recoveryMission # later' \<and> subseq later' []"
    by simp
  then have "later = [recoveryMission]" by auto
  with l(1) have res: "?r = [cardioMission sampleBaseline, recoveryMission]" by simp
  from over split fits first later res sub show ?thesis by (intro conjI)
qed


subsection \<open>C6: the kept missions fit the budget\<close>

text \<open>
  Claim C6. Whenever the candidate missions' total \<open>estimatedTime\<close> exceeds
  \<open>baseline.timeAvailable\<close>, the list returned by \<open>prioritizeMissions\<close> has a cumulative
  \<open>estimatedTime\<close> of at most \<open>baseline.timeAvailable\<close>. The budget is one that the
  questionnaire collects: \<open>askNumber(..., 0, 300)\<close> returns no negative number, and
  \<open>prioritizeMissions\<close> is private, called by \<open>generateMissions\<close> alone with the collected
  baseline.
\<close>

theorem prioritizeMissions_within_budget:
  "0 \<le> fb_timeAvailable baseline \<Longrightarrow> fb_timeAvailable baseline < totalTime missions \<Longrightarrow>
     totalTime (prioritizeMissions missions baseline goals) \<le> fb_timeAvailable baseline"
proof -
  assume nonneg: "0 \<le> fb_timeAvailable baseline"
    and over: "fb_timeAvailable baseline < totalTime missions"
  let ?kept = "keepWithinTime (fb_timeAvailable baseline) 0
                 (sortByPriority (priorityOrder (fg_primaryGoal goals)) missions)"
  have "totalTime ?kept \<le> fb_timeAvailable baseline"
  proof (cases "?kept = []")
    case True
    with nonneg show ?thesis by (simp add: totalTime_def)
  next
    case False
    from keepWithinTime_bound [OF False] show ?thesis by (simp add: totalTime_sum)
  qed
  with over show ?thesis by (simp add: prioritizeMissions_def)
qed

text \<open>The sample session: 30 minutes available, 48 wanted, 28 kept.\<close>

theorem prioritizeMissions_within_budget_witness:
  "0 \<le> fb_timeAvailable sampleBaseline
   \<and> fb_timeAvailable sampleBaseline < totalTime (candidateMissions sampleBaseline sampleGoals)
   \<and> totalTime (prioritizeMissions (candidateMissions sampleBaseline sampleGoals)
        sampleBaseline sampleGoals) \<le> fb_timeAvailable sampleBaseline"
proof -
  have nonneg: "0 \<le> fb_timeAvailable sampleBaseline" by (simp add: sample_time)
  have over: "fb_timeAvailable sampleBaseline
                < totalTime (candidateMissions sampleBaseline sampleGoals)"
    by (simp add: sample_total sample_time)
  from prioritizeMissions_within_budget [OF nonneg over, of sampleGoals] nonneg over
  show ?thesis by simp
qed

text \<open>
  The range of the collected budget is used: with a budget of -5 minutes, which the
  questionnaire never passes on, no candidate fits and the empty plan's total is 0.
\<close>

lemma negative_candidates:
  "candidateMissions negativeTimeBaseline sampleGoals =
     [strengthMission002, cardioMission negativeTimeBaseline, recoveryMission]"
  by (simp add: candidateMissions_def negativeTimeBaseline_def sampleBaseline_def
        sampleGoals_def Let_def)

lemma negative_cardio_time: "dm_estimatedTime (cardioMission negativeTimeBaseline) = -3"
  by (simp add: cardioMission_def negativeTimeBaseline_def sampleBaseline_def Let_def)

lemma negative_plan:
  "prioritizeMissions (candidateMissions negativeTimeBaseline sampleGoals)
     negativeTimeBaseline sampleGoals = []"
proof -
  have t: "fb_timeAvailable negativeTimeBaseline = -5"
    by (simp add: negativeTimeBaseline_def)
  have g: "fg_primaryGoal sampleGoals = weight_loss" by (simp add: sampleGoals_def)
  have total: "totalTime (candidateMissions negativeTimeBaseline sampleGoals) = 27"
    by (simp add: negative_candidates totalTime_def negative_cardio_time fixed_times)
  have sorted: "sortByPriority (priorityOrder weight_loss)
        (candidateMissions negativeTimeBaseline sampleGoals)
      = [cardioMission negativeTimeBaseline, strengthMission002, recoveryMission]"
    by (simp add: negative_candidates sortByPriority_def priorityOrder_def)
  show ?thesis
    by (simp add: prioritizeMissions_def total t g sorted negative_cardio_time fixed_times)
qed

lemma negative_budget_keeps_nothing:
  "fb_timeAvailable negativeTimeBaseline
     < totalTime (candidateMissions negativeTimeBaseline sampleGoals)
   \<and> prioritizeMissions (candidateMissions negativeTimeBaseline sampleGoals)
         negativeTimeBaseline sampleGoals = []
   \<and> \<not> totalTime (prioritizeMissions (candidateMissions negativeTimeBaseline sampleGoals)
                    negativeTimeBaseline sampleGoals)
         \<le> fb_timeAvailable negativeTimeBaseline"
proof -
  have t: "fb_timeAvailable negativeTimeBaseline = -5"
    by (simp add: negativeTimeBaseline_def)
  have total: "totalTime (candidateMissions negativeTimeBaseline sampleGoals) = 27"
    by (simp add: negative_candidates totalTime_def negative_cardio_time fixed_times)
  have empty: "totalTime [] = 0" by (simp add: totalTime_def)
  show ?thesis by (simp add: negative_plan t total empty)
qed


subsection \<open>C4: the cardio mission\<close>






section \<open>Properties of the health and vitality app\<close>

subsection \<open>The mission factories and the variety loop\<close>

lemma pick_cases: "pickIndex p = 0 \<or> pickIndex p = 1 \<or> pickIndex p = 2"
  by (cases p) simp_all

lemma energy_time: "0 \<le> gm_estimatedTime (fst (createEnergyMission user now rng))"
  using pick_cases [of "fst (nextPick rng)"]
  by (auto simp: createEnergyMission_def energyMissions_def Let_def)

lemma fitness_time: "0 \<le> gm_estimatedTime (fst (createFitnessMission user now rng))"
  using pick_cases [of "fst (nextPick rng)"]
  by (auto simp: createFitnessMission_def fitnessMissions_def Let_def)

lemma nutrition_time: "0 \<le> gm_estimatedTime (fst (createNutritionMission user now rng))"
  using pick_cases [of "fst (nextPick rng)"]
  by (auto simp: createNutritionMission_def nutritionMissions_def Let_def)

lemma sleep_time: "0 \<le> gm_estimatedTime (createSleepMission user now)"
  by (simp add: createSleepMission_def)

lemma stress_time: "0 \<le> gm_estimatedTime (fst (createStressMission user now rng))"
  using pick_cases [of "fst (nextPick rng)"]
  by (auto simp: createStressMission_def stressMissions_def Let_def)

lemma variety_time: "0 \<le> gm_estimatedTime (fst (createVarietyMission user now rng))"
  using pick_cases [of "fst (nextPick rng)"]
  by (auto simp: createVarietyMission_def varietyMissions_def Let_def)

lemma variety_id: "gm_id (fst (createVarietyMission user now rng)) = ''variety_'' @ showInt now"
  by (simp add: createVarietyMission_def Let_def)

declare fillVariety.simps [simp del]

lemma fillVariety_length:
  "length (fst (fillVariety user now missionCount missions rng)) = max (length missions) missionCount"
proof (induction user now missionCount missions rng rule: fillVariety.induct)
  case (1 user now missionCount missions rng)
  show ?case
  proof (cases "length missions < missionCount")
    case True
    with "1.IH" show ?thesis by (subst fillVariety.simps) simp
  next
    case False
    then show ?thesis by (subst fillVariety.simps) simp
  qed
qed

lemma fillVariety_appends:
  "(\<And>g. P (fst (createVarietyMission user now g))) \<Longrightarrow>
     \<exists>vs. fst (fillVariety user now missionCount missions rng) = missions @ vs
          \<and> (\<forall>v \<in> set vs. P v)"
proof (induction user now missionCount missions rng rule: fillVariety.induct)
  case (1 user now missionCount missions rng)
  show ?case
  proof (cases "length missions < missionCount")
    case True
    let ?v = "fst (createVarietyMission user now rng)"
    from "1.IH" [OF True "1.prems"]
    obtain vs where vs:
      "fst (fillVariety user now missionCount (missions @ [?v])
              (snd (createVarietyMission user now rng))) = (missions @ [?v]) @ vs"
      "\<forall>v \<in> set vs. P v"
      by blast
    have "fst (fillVariety user now missionCount missions rng) = missions @ (?v # vs)"
      using True vs(1) by (subst fillVariety.simps) simp
    moreover have "\<forall>v \<in> set (?v # vs). P v"
      using vs(2) "1.prems" by simp
    ultimately show ?thesis by blast
  next
    case False
    then have "fst (fillVariety user now missionCount missions rng) = missions @ []"
      by (subst fillVariety.simps) simp
    then show ?thesis by fastforce
  qed
qed

lemma pushWhen_length:
  "length (fst (pushWhen c factory s)) = length (fst s) + (if c then 1 else 0)"
  by (simp add: pushWhen_def)

lemma pushWhen_all:
  "(\<And>g. P (fst (factory g))) \<Longrightarrow> \<forall>m \<in> set (fst s). P m \<Longrightarrow>
     \<forall>m \<in> set (fst (pushWhen c factory s)). P m"
  by (simp add: pushWhen_def)

lemma rule_categories:
  "gm_category (fst (createEnergyMission user now rng)) = ''energy''"
  "gm_category (fst (createFitnessMission user now rng)) = ''fitness''"
  "gm_category (fst (createNutritionMission user now rng)) = ''nutrition''"
  "gm_category (createSleepMission user now) = ''sleep''"
  "gm_category (fst (createStressMission user now rng)) = ''stress''"
  by (simp_all add: createEnergyMission_def createFitnessMission_def
        createNutritionMission_def createSleepMission_def createStressMission_def Let_def)

lemma variety_category:
  "gm_category (fst (createVarietyMission user now rng)) \<in> {''learning'', ''wellness'', ''social''}"
  using pick_cases [of "fst (nextPick rng)"]
  by (auto simp: createVarietyMission_def varietyMissions_def Let_def)

lemma generateDailyMissions_shape:
  assumes "getUser app userId = Some user"
  shows "\<exists>rules vs.
           fst (generateDailyMissions app userId now rng)
             = take (min (3 + level (u_progress user) div 5) 7) (rules @ vs)
         \<and> length (rules @ vs) = max (length rules) (min (3 + level (u_progress user) div 5) 7)
         \<and> length rules =
             (if jsGreater (threeMonths (ug_energyLevel (u_goals user)))
                   (ub_energyLevel (u_baseline user)) then 1 else 0)
           + (if jsGreater (threeMonths (ug_physicalFitness (u_goals user)))
                   (ub_physicalFitness (u_baseline user)) then 1 else 0)
           + (if jsLess (ub_nutritionQuality (u_baseline user)) (Fin 7) then 1 else 0)
           + (if jsLess (ub_sleepQuality (u_baseline user)) (Fin 8) then 1 else 0)
           + (if jsLess (ub_stressManagement (u_baseline user)) (Fin 7) then 1 else 0)
         \<and> (\<forall>m \<in> set rules.
               gm_category m \<in> {''energy'', ''fitness'', ''nutrition'', ''sleep'', ''stress''}
               \<and> 0 \<le> gm_estimatedTime m)
         \<and> (\<forall>m \<in> set vs.
               gm_category m \<in> {''learning'', ''wellness'', ''social''}
               \<and> 0 \<le> gm_estimatedTime m)"
proof -
  let ?count = "min (3 + level (u_progress user) div 5) 7"
  let ?P = "\<lambda>m. gm_category m \<in> {''energy'', ''fitness'', ''nutrition'', ''sleep'', ''stress''}
               \<and> 0 \<le> gm_estimatedTime m"
  let ?V = "\<lambda>m. gm_category m \<in> {''learning'', ''wellness'', ''social''}
               \<and> 0 \<le> gm_estimatedTime m"
  define s1 where "s1 = pushWhen
      (jsGreater (threeMonths (ug_energyLevel (u_goals user))) (ub_energyLevel (u_baseline user)))
      (createEnergyMission user now) ([], rng)"
  define s2 where "s2 = pushWhen
      (jsGreater (threeMonths (ug_physicalFitness (u_goals user)))
         (ub_physicalFitness (u_baseline user)))
      (createFitnessMission user now) s1"
  define s3 where "s3 = pushWhen (jsLess (ub_nutritionQuality (u_baseline user)) (Fin 7))
      (createNutritionMission user now) s2"
  define s4 where "s4 = (if jsLess (ub_sleepQuality (u_baseline user)) (Fin 8)
      then (fst s3 @ [createSleepMission user now], snd s3) else s3)"
  define s5 where "s5 = pushWhen (jsLess (ub_stressManagement (u_baseline user)) (Fin 7))
      (createStressMission user now) s4"
  have res: "fst (generateDailyMissions app userId now rng)
               = take ?count (fst (fillVariety user now ?count (fst s5) (snd s5)))"
    using assms
    by (simp add: generateDailyMissions_def Let_def s1_def s2_def s3_def s4_def s5_def)
  have l1: "length (fst s1) = (if jsGreater (threeMonths (ug_energyLevel (u_goals user)))
                   (ub_energyLevel (u_baseline user)) then 1 else 0)"
    by (simp add: s1_def pushWhen_length)
  have l2: "length (fst s2) = length (fst s1)
      + (if jsGreater (threeMonths (ug_physicalFitness (u_goals user)))
                   (ub_physicalFitness (u_baseline user)) then 1 else 0)"
    unfolding s2_def by (rule pushWhen_length)
  have l3: "length (fst s3) = length (fst s2)
      + (if jsLess (ub_nutritionQuality (u_baseline user)) (Fin 7) then 1 else 0)"
    unfolding s3_def by (rule pushWhen_length)
  have l4: "length (fst s4) = length (fst s3)
      + (if jsLess (ub_sleepQuality (u_baseline user)) (Fin 8) then 1 else 0)"
    by (simp add: s4_def)
  have l5: "length (fst s5) = length (fst s4)
      + (if jsLess (ub_stressManagement (u_baseline user)) (Fin 7) then 1 else 0)"
    unfolding s5_def by (rule pushWhen_length)
  have p1: "\<forall>m \<in> set (fst s1). ?P m"
    unfolding s1_def by (rule pushWhen_all) (simp_all add: rule_categories energy_time)
  have p2: "\<forall>m \<in> set (fst s2). ?P m"
    unfolding s2_def by (rule pushWhen_all [OF _ p1]) (simp add: rule_categories fitness_time)
  have p3: "\<forall>m \<in> set (fst s3). ?P m"
    unfolding s3_def by (rule pushWhen_all [OF _ p2]) (simp add: rule_categories nutrition_time)
  have p4: "\<forall>m \<in> set (fst s4). ?P m"
    using p3 by (simp add: s4_def rule_categories sleep_time)
  have p5: "\<forall>m \<in> set (fst s5). ?P m"
    unfolding s5_def by (rule pushWhen_all [OF _ p4]) (simp add: rule_categories stress_time)
  have "\<And>g. ?V (fst (createVarietyMission user now g))"
    using variety_category variety_time by blast
  from fillVariety_appends [of ?V user now ?count "fst s5" "snd s5", OF this]
  obtain vs where vs: "fst (fillVariety user now ?count (fst s5) (snd s5)) = fst s5 @ vs"
    "\<forall>v \<in> set vs. ?V v"
    by blast
  have len: "length (fst s5 @ vs) = max (length (fst s5)) ?count"
    using fillVariety_length [of user now ?count "fst s5" "snd s5"] vs(1) by simp
  have "fst (generateDailyMissions app userId now rng) = take ?count (fst s5 @ vs)"
    using res vs(1) by simp
  moreover note len
  moreover have "length (fst s5) =
             (if jsGreater (threeMonths (ug_energyLevel (u_goals user)))
                   (ub_energyLevel (u_baseline user)) then 1 else 0)
           + (if jsGreater (threeMonths (ug_physicalFitness (u_goals user)))
                   (ub_physicalFitness (u_baseline user)) then 1 else 0)
           + (if jsLess (ub_nutritionQuality (u_baseline user)) (Fin 7) then 1 else 0)
           + (if jsLess (ub_sleepQuality (u_baseline user)) (Fin 8) then 1 else 0)
           + (if jsLess (ub_stressManagement (u_baseline user)) (Fin 7) then 1 else 0)"
    using l1 l2 l3 l4 l5 by simp
  ultimately show ?thesis using p5 vs(2) by blast
qed

subsection \<open>Alex, evaluated\<close>

lemma createUser_stores:
  "users (snd (createUser S app name rs now rp)) (u_id (fst (createUser S app name rs now rp)))
     = Some (fst (createUser S app name rs now rp))"
  by (simp add: createUser_def Let_def)

lemma alex_stored: "getUser alexApp (u_id alex) = Some alex"
  unfolding getUser_def alexApp_def alex_def by (rule createUser_stores)

lemma alex_progress:
  "u_progress alex = \<lparr> level = 1, xp = 0, coins = 100, streaks = Map.empty,
                  completedMissions = [], unlockedAchievements = [],
                  lastActive = 1000 \<rparr>"
  by (simp add: alex_def createUser_def Let_def)

lemma alex_baseline:
  "u_baseline alex = \<lparr> ub_energyLevel = Fin 4, ub_physicalFitness = Fin 3, ub_strength = Fin 1,
      ub_flexibility = Fin 1, ub_weight = Fin 180, ub_height = Fin 70,
      ub_nutritionQuality = Fin 1, ub_hydration = Fin 1, ub_sleepQuality = Fin 1,
      ub_stressManagement = Fin 1, ub_currentChallenges = [] \<rparr>"
  by (simp add: alex_def createUser_def Let_def processSurveyResponses_def responseMap_def
        exampleResponses_def orElse_def)

lemma alex_goals_3m:
  "threeMonths (ug_energyLevel (u_goals alex)) = Fin 7"
  "threeMonths (ug_physicalFitness (u_goals alex)) = Fin 6"
  by (simp_all add: alex_def createUser_def Let_def processGoals_def responseMap_def
        exampleResponses_def orElse_def)

lemma alexAt90_stored: "getUser alexAt90App (u_id alex) = Some alexAt90"
  by (simp add: getUser_def alexAt90App_def)

lemma alexAt90_progress:
  "u_progress alexAt90 = \<lparr> level = 1, xp = 90, coins = 100, streaks = Map.empty,
                  completedMissions = [], unlockedAchievements = [],
                  lastActive = 1000 \<rparr>"
  by (simp add: alexAt90_def alex_progress)

lemma newApp_table:
  "map (\<lambda>a. a\<lparr>ach_unlockedAt := None\<rparr>) (achievements newApp) = initializeAchievements"
  by (simp add: newApp_def initializeAchievements_def)

lemma createUser_table:
  "achievements (snd (createUser S app name rs now rp)) = achievements app"
  by (simp add: createUser_def Let_def)

lemma alexApp_table:
  "map (\<lambda>a. a\<lparr>ach_unlockedAt := None\<rparr>) (achievements alexApp) = initializeAchievements"
  unfolding alexApp_def createUser_table by (rule newApp_table)

lemma alex_missions_head:
  "fst (createEnergyMission alex 1000 alwaysThird)
     \<in> set (fst (generateDailyMissions alexApp (u_id alex) 1000 alwaysThird))"
proof -
  have lvl: "level (u_progress alex) = 1" by (simp add: alex_progress)
  have fill: "fillVariety user now 3 (a # b # c # rest) g = (a # b # c # rest, g)"
    for user now a b c rest g
    by (subst fillVariety.simps) simp
  show ?thesis
    by (simp add: generateDailyMissions_def alex_stored Let_def pushWhen_def lvl
          alex_baseline alex_goals_3m jsGreater_def fill)
qed

subsection \<open>C10: how many daily missions\<close>

text \<open>
  Claim C10. For every \<open>userId\<close> in the store, \<open>generateDailyMissions\<close> returns exactly
  \<open>min(3 + floor(level / 5), 7)\<close> missions: the missions of the rules that fired, then
  variety missions up to that count, the whole cut to that count when more rules fired.
  For a \<open>userId\<close> that is not in the store it returns the empty list, and no error.
\<close>

theorem generateDailyMissions_count:
  "(getUser app userId = None \<longrightarrow> generateDailyMissions app userId now rng = ([], rng))
   \<and> (\<forall>user. getUser app userId = Some user \<longrightarrow>
         length (fst (generateDailyMissions app userId now rng))
           = min (3 + level (u_progress user) div 5) 7
       \<and> (\<exists>rules vs.
             fst (generateDailyMissions app userId now rng)
               = take (min (3 + level (u_progress user) div 5) 7) (rules @ vs)
           \<and> length (rules @ vs)
               = max (length rules) (min (3 + level (u_progress user) div 5) 7)
           \<and> length rules =
               (if jsGreater (threeMonths (ug_energyLevel (u_goals user)))
                     (ub_energyLevel (u_baseline user)) then 1 else 0)
             + (if jsGreater (threeMonths (ug_physicalFitness (u_goals user)))
                     (ub_physicalFitness (u_baseline user)) then 1 else 0)
             + (if jsLess (ub_nutritionQuality (u_baseline user)) (Fin 7) then 1 else 0)
             + (if jsLess (ub_sleepQuality (u_baseline user)) (Fin 8) then 1 else 0)
             + (if jsLess (ub_stressManagement (u_baseline user)) (Fin 7) then 1 else 0)
           \<and> (\<forall>m \<in> set rules.
                 gm_category m \<in> {''energy'', ''fitness'', ''nutrition'', ''sleep'', ''stress''})
           \<and> (\<forall>m \<in> set vs.
                 gm_category m \<in> {''learning'', ''wellness'', ''social''})))"
proof (intro conjI impI allI)
  assume "getUser app userId = None"
  then show "generateDailyMissions app userId now rng = ([], rng)"
    by (simp add: generateDailyMissions_def)
next
  fix user
  assume u: "getUser app userId = Some user"
  let ?count = "min (3 + level (u_progress user) div 5) 7"
  from generateDailyMissions_shape [OF u, of now rng]
  obtain rules vs where shape:
    "fst (generateDailyMissions app userId now rng) = take ?count (rules @ vs)"
    "length (rules @ vs) = max (length rules) ?count"
    "length rules =
               (if jsGreater (threeMonths (ug_energyLevel (u_goals user)))
                     (ub_energyLevel (u_baseline user)) then 1 else 0)
             + (if jsGreater (threeMonths (ug_physicalFitness (u_goals user)))
                     (ub_physicalFitness (u_baseline user)) then 1 else 0)
             + (if jsLess (ub_nutritionQuality (u_baseline user)) (Fin 7) then 1 else 0)
             + (if jsLess (ub_sleepQuality (u_baseline user)) (Fin 8) then 1 else 0)
             + (if jsLess (ub_stressManagement (u_baseline user)) (Fin 7) then 1 else 0)"
    "\<forall>m \<in> set rules.
        gm_category m \<in> {''energy'', ''fitness'', ''nutrition'', ''sleep'', ''stress''}"
    "\<forall>m \<in> set vs. gm_category m \<in> {''learning'', ''wellness'', ''social''}"
    by blast
  from shape(1,2) show "length (fst (generateDailyMissions app userId now rng)) = ?count"
    by simp
  from shape show "\<exists>rules vs.
             fst (generateDailyMissions app userId now rng)
               = take (min (3 + level (u_progress user) div 5) 7) (rules @ vs)
           \<and> length (rules @ vs)
               = max (length rules) (min (3 + level (u_progress user) div 5) 7)
           \<and> length rules =
               (if jsGreater (threeMonths (ug_energyLevel (u_goals user)))
                     (ub_energyLevel (u_baseline user)) then 1 else 0)
             + (if jsGreater (threeMonths (ug_physicalFitness (u_goals user)))
                     (ub_physicalFitness (u_baseline user)) then 1 else 0)
             + (if jsLess (ub_nutritionQuality (u_baseline user)) (Fin 7) then 1 else 0)
             + (if jsLess (ub_sleepQuality (u_baseline user)) (Fin 8) then 1 else 0)
             + (if jsLess (ub_stressManagement (u_baseline user)) (Fin 7) then 1 else 0)
           \<and> (\<forall>m \<in> set rules.
                 gm_category m \<in> {''energy'', ''fitness'', ''nutrition'', ''sleep'', ''stress''})
           \<and> (\<forall>m \<in> set vs.
                 gm_category m \<in> {''learning'', ''wellness'', ''social''})"
    by blast
qed

text \<open>
  Alex is at level 1 and all five rules fire: three missions. Nobody is unknown to a
  new app: no mission.
\<close>

theorem generateDailyMissions_count_witness:
  "getUser alexApp (u_id alex) = Some alex
   \<and> level (u_progress alex) = 1
   \<and> length (fst (generateDailyMissions alexApp (u_id alex) 1000 alwaysThird)) = 3
   \<and> getUser newApp ''nobody'' = None
   \<and> generateDailyMissions newApp ''nobody'' 1000 alwaysThird = ([], alwaysThird)"
proof -
  have lvl: "level (u_progress alex) = 1" by (simp add: alex_progress)
  have unknown: "getUser newApp ''nobody'' = None" by (simp add: getUser_def newApp_def)
  from generateDailyMissions_count [of alexApp "u_id alex" 1000 alwaysThird] alex_stored
  have "length (fst (generateDailyMissions alexApp (u_id alex) 1000 alwaysThird))
          = min (3 + level (u_progress alex) div 5) 7"
    by blast
  then have three: "length (fst (generateDailyMissions alexApp (u_id alex) 1000 alwaysThird)) = 3"
    by (simp add: lvl)
  from generateDailyMissions_count [of newApp "''nobody''" 1000 alwaysThird] unknown
  have "generateDailyMissions newApp ''nobody'' 1000 alwaysThird = ([], alwaysThird)"
    by blast
  with alex_stored lvl three unknown show ?thesis by simp
qed

subsection \<open>C8: no mission takes negative time\<close>

lemma candidate_times:
  assumes "0 \<le> fb_timeAvailable baseline" and "m \<in> set (candidateMissions baseline goals)"
  shows "0 \<le> dm_estimatedTime m"
proof -
  from candidate_cases [OF assms(2)]
  consider "m = strengthMission001 baseline" | "m = strengthMission002"
    | "m = cardioMission baseline" | "m = flexibilityMission" | "m = recoveryMission"
    by blast
  then show ?thesis
  proof cases
    case 1
    with assms(1) show ?thesis by (simp add: strengthMission001_def)
  next
    case 2
    then show ?thesis by (simp add: fixed_times)
  next
    case 3
    with assms(1) show ?thesis by (simp add: cardioMission_def Let_def)
  next
    case 4
    then show ?thesis by (simp add: fixed_times)
  next
    case 5
    then show ?thesis by (simp add: fixed_times)
  qed
qed

text \<open>
  Claim C8. For every Baseline with \<open>timeAvailable\<close> at least 0 and every Goals, every
  mission that \<open>generateMissions\<close> builds or returns has an \<open>estimatedTime\<close> of at least
  0; so has every mission of \<open>generateDailyMissions\<close> and of each of the app's six
  mission factories.
\<close>

theorem estimatedTime_nonneg:
  "(0 \<le> fb_timeAvailable baseline \<longrightarrow>
      (\<forall>m \<in> set (candidateMissions baseline goals) \<union> set (generateMissions baseline goals).
         0 \<le> dm_estimatedTime m))
   \<and> (\<forall>m \<in> set (fst (generateDailyMissions app userId now rng)). 0 \<le> gm_estimatedTime m)
   \<and> 0 \<le> gm_estimatedTime (fst (createEnergyMission user now rng))
   \<and> 0 \<le> gm_estimatedTime (fst (createFitnessMission user now rng))
   \<and> 0 \<le> gm_estimatedTime (fst (createNutritionMission user now rng))
   \<and> 0 \<le> gm_estimatedTime (createSleepMission user now)
   \<and> 0 \<le> gm_estimatedTime (fst (createStressMission user now rng))
   \<and> 0 \<le> gm_estimatedTime (fst (createVarietyMission user now rng))"
proof (intro conjI impI ballI)
  fix m
  assume t: "0 \<le> fb_timeAvailable baseline"
    and "m \<in> set (candidateMissions baseline goals) \<union> set (generateMissions baseline goals)"
  then have "m \<in> set (candidateMissions baseline goals)"
    using prioritizeMissions_subset by (auto simp: generateMissions_def)
  with t show "0 \<le> dm_estimatedTime m" by (rule candidate_times)
next
  fix m
  assume m: "m \<in> set (fst (generateDailyMissions app userId now rng))"
  show "0 \<le> gm_estimatedTime m"
  proof (cases "getUser app userId")
    case None
    with m show ?thesis by (simp add: generateDailyMissions_def)
  next
    case (Some u)
    from generateDailyMissions_shape [OF Some, of now rng]
    obtain rules vs where
      "fst (generateDailyMissions app userId now rng)
         = take (min (3 + level (u_progress u) div 5) 7) (rules @ vs)"
      "\<forall>m \<in> set rules. 0 \<le> gm_estimatedTime m"
      "\<forall>m \<in> set vs. 0 \<le> gm_estimatedTime m"
      by blast
    with m have "m \<in> set (rules @ vs)" by (auto dest: in_set_takeD)
    with \<open>\<forall>m \<in> set rules. 0 \<le> gm_estimatedTime m\<close> \<open>\<forall>m \<in> set vs. 0 \<le> gm_estimatedTime m\<close>
    show ?thesis by auto
  qed
qed (rule energy_time fitness_time nutrition_time sleep_time stress_time variety_time)+

text \<open>
  The cardio mission of the sample session and the energy mission at the head of Alex's
  daily missions.
\<close>

theorem estimatedTime_nonneg_witness:
  "0 \<le> fb_timeAvailable sampleBaseline
   \<and> cardioMission sampleBaseline \<in> set (generateMissions sampleBaseline sampleGoals)
   \<and> 0 \<le> dm_estimatedTime (cardioMission sampleBaseline)
   \<and> fst (createEnergyMission alex 1000 alwaysThird)
        \<in> set (fst (generateDailyMissions alexApp (u_id alex) 1000 alwaysThird))
   \<and> 0 \<le> gm_estimatedTime (fst (createEnergyMission alex 1000 alwaysThird))"
proof -
  note inst = estimatedTime_nonneg [where baseline = sampleBaseline and goals = sampleGoals
      and app = alexApp and userId = "u_id alex" and now = 1000 and rng = alwaysThird
      and user = alex]
  have t: "0 \<le> fb_timeAvailable sampleBaseline" by (simp add: sample_time)
  have mem: "cardioMission sampleBaseline \<in> set (generateMissions sampleBaseline sampleGoals)"
    by (simp add: generateMissions_def sample_plan)
  from inst t have "\<forall>m \<in> set (candidateMissions sampleBaseline sampleGoals)
                       \<union> set (generateMissions sampleBaseline sampleGoals).
                     0 \<le> dm_estimatedTime m"
    by blast
  with mem have c: "0 \<le> dm_estimatedTime (cardioMission sampleBaseline)" by blast
  from inst have "\<forall>m \<in> set (fst (generateDailyMissions alexApp (u_id alex) 1000 alwaysThird)).
                    0 \<le> gm_estimatedTime m"
    by blast
  with alex_missions_head
  have e: "0 \<le> gm_estimatedTime (fst (createEnergyMission alex 1000 alwaysThird))" by blast
  from t mem c alex_missions_head e show ?thesis by blast
qed

subsection \<open>Completion: the reward, the level and the achievements\<close>

lemma requirementsMet_cong:
  "completedMissions p' = completedMissions p \<Longrightarrow> streaks p' = streaks p \<Longrightarrow>
     requirementsMet p' rs = requirementsMet p rs"
proof -
  assume "completedMissions p' = completedMissions p" "streaks p' = streaks p"
  then have "requirementFails p' = requirementFails p"
    by (intro ext) (simp add: requirementFails_def Let_def split: RequirementType.splits)
  then show ?thesis by (simp only: requirementsMet_def)
qed

lemma requirementsMet_all:
  "requirementsMet p rs = (\<forall>r \<in> set rs. \<not> requirementFails p r)"
proof -
  have "foldl (\<lambda>met r. if requirementFails p r then False else met) b rs
          = (b \<and> (\<forall>r \<in> set rs. \<not> requirementFails p r))" for b
    by (induction rs arbitrary: b) auto
  then show ?thesis by (simp add: requirementsMet_def)
qed

lemma loop_effect:
  "checkAchievementsLoop now table user = (table', new, user') \<Longrightarrow>
     user' = user\<lparr>u_progress := (u_progress user)
               \<lparr>xp := xp (u_progress user) + sum_list (map ach_xpReward new),
                unlockedAchievements :=
                  unlockedAchievements (u_progress user) @ map ach_id new\<rparr>\<rparr>
     \<and> map (\<lambda>a. a\<lparr>ach_unlockedAt := None\<rparr>) table'
         = map (\<lambda>a. a\<lparr>ach_unlockedAt := None\<rparr>) table"
proof (induction table arbitrary: user table' new user')
  case Nil
  then show ?case by simp
next
  case (Cons a rest)
  show ?case
  proof (cases "ach_id a \<in> set (unlockedAchievements (u_progress user))")
    case True
    obtain t n u where r: "checkAchievementsLoop now rest user = (t, n, u)"
      by (cases "checkAchievementsLoop now rest user") auto
    with True Cons.prems have eq: "table' = a # t" "new = n" "user' = u" by simp_all
    from Cons.IH [OF r] eq show ?thesis by simp
  next
    case False
    show ?thesis
    proof (cases "requirementsMet (u_progress user) (ach_requirements a)")
      case True
      let ?u1 = "user\<lparr>u_progress := (u_progress user)
                    \<lparr>unlockedAchievements := unlockedAchievements (u_progress user) @ [ach_id a],
                     xp := xp (u_progress user) + ach_xpReward a\<rparr>\<rparr>"
      obtain t n u where r: "checkAchievementsLoop now rest ?u1 = (t, n, u)"
        by (cases "checkAchievementsLoop now rest ?u1") auto
      with True False Cons.prems
      have eq: "table' = a\<lparr>ach_unlockedAt := Some now\<rparr> # t"
        "new = a\<lparr>ach_unlockedAt := Some now\<rparr> # n" "user' = u"
        by (simp_all add: Let_def)
      from Cons.IH [OF r] eq show ?thesis by (simp add: add.assoc)
    next
      case nomet: False
      obtain t n u where r: "checkAchievementsLoop now rest user = (t, n, u)"
        by (cases "checkAchievementsLoop now rest user") auto
      with False nomet Cons.prems have eq: "table' = a # t" "new = n" "user' = u" by simp_all
      from Cons.IH [OF r] eq show ?thesis by simp
    qed
  qed
qed

lemma loop_new:
  "distinct (map ach_id table) \<Longrightarrow>
     fst (snd (checkAchievementsLoop now table user))
       = map (\<lambda>a. a\<lparr>ach_unlockedAt := Some now\<rparr>)
           (filter (\<lambda>a. ach_id a \<notin> set (unlockedAchievements (u_progress user))
                        \<and> requirementsMet (u_progress user) (ach_requirements a)) table)"
proof (induction table arbitrary: user)
  case Nil
  then show ?case by simp
next
  case (Cons a rest)
  then have d: "distinct (map ach_id rest)" and fresh: "ach_id a \<notin> ach_id ` set rest"
    by simp_all
  show ?case
  proof (cases "ach_id a \<notin> set (unlockedAchievements (u_progress user))
                  \<and> requirementsMet (u_progress user) (ach_requirements a)")
    case True
    let ?u1 = "user\<lparr>u_progress := (u_progress user)
                  \<lparr>unlockedAchievements := unlockedAchievements (u_progress user) @ [ach_id a],
                   xp := xp (u_progress user) + ach_xpReward a\<rparr>\<rparr>"
    have same: "filter (\<lambda>b. ach_id b \<notin> set (unlockedAchievements (u_progress ?u1))
                        \<and> requirementsMet (u_progress ?u1) (ach_requirements b)) rest
              = filter (\<lambda>b. ach_id b \<notin> set (unlockedAchievements (u_progress user))
                        \<and> requirementsMet (u_progress user) (ach_requirements b)) rest"
    proof (rule filter_cong [OF refl])
      fix b assume "b \<in> set rest"
      then have "ach_id b \<in> ach_id ` set rest" by (rule imageI)
      with fresh have "ach_id b \<noteq> ach_id a" by metis
      moreover have "requirementsMet (u_progress ?u1) (ach_requirements b)
                       = requirementsMet (u_progress user) (ach_requirements b)"
        by (rule requirementsMet_cong) simp_all
      ultimately show "(ach_id b \<notin> set (unlockedAchievements (u_progress ?u1))
                        \<and> requirementsMet (u_progress ?u1) (ach_requirements b))
             = (ach_id b \<notin> set (unlockedAchievements (u_progress user))
                        \<and> requirementsMet (u_progress user) (ach_requirements b))"
        by simp
    qed
    have step: "fst (snd (checkAchievementsLoop now (a # rest) user))
                  = a\<lparr>ach_unlockedAt := Some now\<rparr>
                      # fst (snd (checkAchievementsLoop now rest ?u1))"
      using True by (simp add: Let_def split: prod.splits)
    have "fst (snd (checkAchievementsLoop now rest ?u1))
            = map (\<lambda>a. a\<lparr>ach_unlockedAt := Some now\<rparr>)
                (filter (\<lambda>b. ach_id b \<notin> set (unlockedAchievements (u_progress user))
                        \<and> requirementsMet (u_progress user) (ach_requirements b)) rest)"
      using Cons.IH [OF d, of ?u1] by (simp only: same)
    with step True show ?thesis by simp
  next
    case False
    with Cons.IH [OF d, of user] show ?thesis
      by (auto split: prod.splits)
  qed
qed

lemma awardCompletion_progress:
  "u_progress (awardCompletion user missionId now)
     = (u_progress user)
         \<lparr>xp := xp (u_progress user) + 20,
          coins := coins (u_progress user) + 10,
          completedMissions := completedMissions (u_progress user) @ [missionId],
          lastActive := now\<rparr>"
  by (simp add: awardCompletion_def Let_def)

lemma checkLevelUp_fires:
  "fst (checkLevelUp u) = (level (u_progress u) * 100 \<le> xp (u_progress u))"
  by (simp add: checkLevelUp_def Let_def)

lemma checkLevelUp_progress:
  "u_progress (snd (checkLevelUp u))
     = (if level (u_progress u) * 100 \<le> xp (u_progress u)
        then (u_progress u)
               \<lparr>level := level (u_progress u) + 1,
                coins := coins (u_progress u) + (level (u_progress u) + 1) * 10\<rparr>
        else u_progress u)"
  by (simp add: checkLevelUp_def Let_def)

lemma completeMission_known:
  assumes "getUser app userId = Some user"
  shows "fst (completeMission app userId missionId now)"
    and "getUser (snd (completeMission app userId missionId now)) userId
           = Some ((snd (snd (checkAchievementsLoop now (achievements app)
                       (snd (checkLevelUp (awardCompletion user missionId now))))))
                   \<lparr>u_updatedAt := now\<rparr>)"
    and "achievements (snd (completeMission app userId missionId now))
           = fst (checkAchievementsLoop now (achievements app)
                    (snd (checkLevelUp (awardCompletion user missionId now))))"
  using assms
  by (simp_all add: completeMission_def checkAchievements_def getUser_def Let_def
        split: prod.splits)

lemma checkAchievements_new:
  "fst (checkAchievements app u now) = fst (snd (checkAchievementsLoop now (achievements app) u))"
  by (simp add: checkAchievements_def split: prod.splits)

lemma loop_user:
  "snd (snd (checkAchievementsLoop now table user))
     = user\<lparr>u_progress := (u_progress user)
               \<lparr>xp := xp (u_progress user)
                  + sum_list (map ach_xpReward (fst (snd (checkAchievementsLoop now table user)))),
                unlockedAchievements :=
                  unlockedAchievements (u_progress user)
                    @ map ach_id (fst (snd (checkAchievementsLoop now table user)))\<rparr>\<rparr>"
proof -
  obtain t n u where r: "checkAchievementsLoop now table user = (t, n, u)"
    by (cases "checkAchievementsLoop now table user") auto
  from loop_effect [OF r] r show ?thesis by simp
qed

lemma loop_table:
  "map (\<lambda>a. a\<lparr>ach_unlockedAt := None\<rparr>) (fst (checkAchievementsLoop now table user))
     = map (\<lambda>a. a\<lparr>ach_unlockedAt := None\<rparr>) table"
proof -
  obtain t n u where r: "checkAchievementsLoop now table user = (t, n, u)"
    by (cases "checkAchievementsLoop now table user") auto
  from loop_effect [OF r] r show ?thesis by simp
qed

lemma filter_rules:
  assumes "\<And>a. Q (a\<lparr>ach_unlockedAt := None\<rparr>) = Q a"
  shows "map ach_id (filter Q table)
           = map ach_id (filter Q (map (\<lambda>a. a\<lparr>ach_unlockedAt := None\<rparr>) table))"
    and "map ach_xpReward (filter Q table)
           = map ach_xpReward (filter Q (map (\<lambda>a. a\<lparr>ach_unlockedAt := None\<rparr>) table))"
  using assms by (induction table) simp_all

lemma initial_ids:
  "map ach_id initializeAchievements
     = [''first_mission'', ''week_warrior'', ''fitness_fanatic'', ''level_10'']"
  by (simp add: initializeAchievements_def)

lemma table_ids:
  assumes "map (\<lambda>a. a\<lparr>ach_unlockedAt := None\<rparr>) table = initializeAchievements"
  shows "map ach_id table
     = [''first_mission'', ''week_warrior'', ''fitness_fanatic'', ''level_10'']"
proof -
  have "map ach_id table = map ach_id (map (\<lambda>a. a\<lparr>ach_unlockedAt := None\<rparr>) table)"
    by simp
  with assms show ?thesis by (simp only: initial_ids)
qed

lemma unlocked_by_rules:
  assumes table: "map (\<lambda>a. a\<lparr>ach_unlockedAt := None\<rparr>) table = initializeAchievements"
    and nonempty: "completedMissions (u_progress u) \<noteq> []"
  shows "map ach_id (fst (snd (checkAchievementsLoop now table u)))
     = (if ''first_mission'' \<in> set (unlockedAchievements (u_progress u)) then []
        else [''first_mission''])
     @ (if ''week_warrior'' \<notin> set (unlockedAchievements (u_progress u))
           \<and> 7 \<le> (case streaks (u_progress u) ''daily'' of None \<Rightarrow> 0 | Some n \<Rightarrow> n)
        then [''week_warrior''] else [])
     @ (if ''fitness_fanatic'' \<in> set (unlockedAchievements (u_progress u)) then []
        else [''fitness_fanatic''])
     @ (if ''level_10'' \<in> set (unlockedAchievements (u_progress u)) then []
        else [''level_10''])"
    and "sum_list (map ach_xpReward (fst (snd (checkAchievementsLoop now table u))))
     = (if ''first_mission'' \<in> set (unlockedAchievements (u_progress u)) then 0 else 50)
     + (if ''week_warrior'' \<notin> set (unlockedAchievements (u_progress u))
           \<and> 7 \<le> (case streaks (u_progress u) ''daily'' of None \<Rightarrow> 0 | Some n \<Rightarrow> n)
        then 200 else 0)
     + (if ''fitness_fanatic'' \<in> set (unlockedAchievements (u_progress u)) then 0 else 300)
     + (if ''level_10'' \<in> set (unlockedAchievements (u_progress u)) then 0 else 500)"
proof -
  let ?Q = "\<lambda>a. ach_id a \<notin> set (unlockedAchievements (u_progress u))
                 \<and> requirementsMet (u_progress u) (ach_requirements a)"
  have d: "distinct (map ach_id table)"
    by (simp add: table_ids [OF table])
  have new: "fst (snd (checkAchievementsLoop now table u))
               = map (\<lambda>a. a\<lparr>ach_unlockedAt := Some now\<rparr>) (filter ?Q table)"
    by (rule loop_new [OF d])
  have q: "\<And>a. ?Q (a\<lparr>ach_unlockedAt := None\<rparr>) = ?Q a" by simp
  from nonempty have len: "\<not> length (completedMissions (u_progress u)) < 1"
    by (cases "completedMissions (u_progress u)") simp_all
  have ids: "map ach_id (fst (snd (checkAchievementsLoop now table u)))
               = map ach_id (filter ?Q initializeAchievements)"
    using filter_rules(1) [of ?Q table, OF q] by (simp add: new table o_def)
  have rewards: "map ach_xpReward (fst (snd (checkAchievementsLoop now table u)))
               = map ach_xpReward (filter ?Q initializeAchievements)"
    using filter_rules(2) [of ?Q table, OF q] by (simp add: new table o_def)
  show "map ach_id (fst (snd (checkAchievementsLoop now table u)))
     = (if ''first_mission'' \<in> set (unlockedAchievements (u_progress u)) then []
        else [''first_mission''])
     @ (if ''week_warrior'' \<notin> set (unlockedAchievements (u_progress u))
           \<and> 7 \<le> (case streaks (u_progress u) ''daily'' of None \<Rightarrow> 0 | Some n \<Rightarrow> n)
        then [''week_warrior''] else [])
     @ (if ''fitness_fanatic'' \<in> set (unlockedAchievements (u_progress u)) then []
        else [''fitness_fanatic''])
     @ (if ''level_10'' \<in> set (unlockedAchievements (u_progress u)) then []
        else [''level_10''])"
    unfolding ids using len
    by (simp add: initializeAchievements_def requirementsMet_def requirementFails_def
          not_less)
  show "sum_list (map ach_xpReward (fst (snd (checkAchievementsLoop now table u))))
     = (if ''first_mission'' \<in> set (unlockedAchievements (u_progress u)) then 0 else 50)
     + (if ''week_warrior'' \<notin> set (unlockedAchievements (u_progress u))
           \<and> 7 \<le> (case streaks (u_progress u) ''daily'' of None \<Rightarrow> 0 | Some n \<Rightarrow> n)
        then 200 else 0)
     + (if ''fitness_fanatic'' \<in> set (unlockedAchievements (u_progress u)) then 0 else 300)
     + (if ''level_10'' \<in> set (unlockedAchievements (u_progress u)) then 0 else 500)"
    unfolding rewards using len
    by (simp add: initializeAchievements_def requirementsMet_def requirementFails_def
          not_less)
qed

subsection \<open>C7: an unknown user\<close>

text \<open>
  Claim C7. For every \<open>userId\<close> that is not in the user store, \<open>completeMission\<close>
  returns false and leaves the app as it was, so no user's progress (experience, coins,
  level, completed missions, \<open>lastActive\<close>) changes; \<open>completeMissionAPI\<close> then throws
  the error \<open>Failed to complete mission\<close> and returns no success result.
\<close>

theorem completeMission_unknown_user:
  "getUser app userId = None \<Longrightarrow>
     completeMission app userId missionId now = (False, app)
     \<and> completeMissionAPI app userId missionId now
         = (Inl (Error ''Failed to complete mission''), app)"
  by (simp add: completeMission_def completeMissionAPI_def)

text \<open>
  Nobody completes a mission in Alex's app.
\<close>

theorem completeMission_unknown_user_witness:
  "getUser alexApp ''nobody'' = None
   \<and> completeMission alexApp ''nobody'' ''energy_1000'' 2000 = (False, alexApp)
   \<and> completeMissionAPI alexApp ''nobody'' ''energy_1000'' 2000
       = (Inl (Error ''Failed to complete mission''), alexApp)"
proof -
  have unknown: "getUser alexApp ''nobody'' = None"
    by (simp add: getUser_def alexApp_def createUser_def Let_def newApp_def)
  from completeMission_unknown_user [OF unknown, of "''energy_1000''" 2000] unknown
  show ?thesis by simp
qed

subsection \<open>C2: the flat reward and the single level-up check\<close>

text \<open>
  Claim C2. For a user at level 1 with 90 experience points, one \<open>completeMission\<close>
  call first adds the flat 20 points and 10 coins (the call takes the mission's id only,
  not its rewards). The level-up check, whose threshold is \<open>level * 100\<close>, then fires,
  once: the stored user is at level 2 with a further \<open>2 * 10\<close> coins, whatever the
  achievements that the call unlocks add to the experience afterwards.
\<close>

theorem completeMission_level_up:
  assumes "getUser app userId = Some user"
    and "level (u_progress user) = 1"
    and "xp (u_progress user) = 90"
  shows "xp (u_progress (awardCompletion user missionId now)) = 90 + 20
     \<and> coins (u_progress (awardCompletion user missionId now)) = coins (u_progress user) + 10
     \<and> (\<forall>u. fst (checkLevelUp u) = (level (u_progress u) * 100 \<le> xp (u_progress u)))
     \<and> fst (checkLevelUp (awardCompletion user missionId now))
     \<and> fst (completeMission app userId missionId now)
     \<and> (\<exists>user'. getUser (snd (completeMission app userId missionId now)) userId = Some user'
           \<and> level (u_progress user') = 2
           \<and> coins (u_progress user') = coins (u_progress user) + 10 + 2 * 10
           \<and> xp (u_progress user')
               = 90 + 20
                 + sum_list (map ach_xpReward
                     (fst (checkAchievements app
                             (snd (checkLevelUp (awardCompletion user missionId now))) now))))"
proof -
  let ?u1 = "awardCompletion user missionId now"
  let ?u2 = "snd (checkLevelUp ?u1)"
  let ?loop = "checkAchievementsLoop now (achievements app) ?u2"
  let ?user' = "(snd (snd ?loop))\<lparr>u_updatedAt := now\<rparr>"
  have p1: "xp (u_progress ?u1) = 90 + 20" "coins (u_progress ?u1) = coins (u_progress user) + 10"
    "level (u_progress ?u1) = 1"
    using assms(2,3) by (simp_all add: awardCompletion_progress)
  have rule: "\<forall>u. fst (checkLevelUp u) = (level (u_progress u) * 100 \<le> xp (u_progress u))"
    by (simp add: checkLevelUp_fires)
  have fires: "fst (checkLevelUp ?u1)"
    using p1 by (simp add: checkLevelUp_fires)
  have p2: "level (u_progress ?u2) = 2"
    "coins (u_progress ?u2) = coins (u_progress user) + 10 + 2 * 10"
    "xp (u_progress ?u2) = 90 + 20"
    using p1 by (simp_all add: checkLevelUp_progress)
  have p3: "level (u_progress ?user') = 2"
    "coins (u_progress ?user') = coins (u_progress user) + 10 + 2 * 10"
    "xp (u_progress ?user')
       = 90 + 20 + sum_list (map ach_xpReward (fst (checkAchievements app ?u2 now)))"
    using p2 by (simp_all add: loop_user [of now "achievements app" ?u2] checkAchievements_new)
  from completeMission_known [OF assms(1), of missionId now]
  have "fst (completeMission app userId missionId now)"
    and "getUser (snd (completeMission app userId missionId now)) userId = Some ?user'"
    by simp_all
  with p1 rule fires p3 show ?thesis by blast
qed

text \<open>
  Alex at level 1 with 90 points and 100 coins ends at level 2 with 130 coins. The three
  achievements unlocked by the call bring the experience to 960, above the next
  threshold of 200, and the level is still 2.
\<close>

theorem completeMission_level_up_witness:
  "getUser alexAt90App (u_id alex) = Some alexAt90
   \<and> level (u_progress alexAt90) = 1
   \<and> xp (u_progress alexAt90) = 90
   \<and> coins (u_progress alexAt90) = 100
   \<and> fst (completeMission alexAt90App (u_id alex) ''energy_1000'' 2000)
   \<and> map_option (\<lambda>u. (level (u_progress u), coins (u_progress u), xp (u_progress u)))
        (getUser (snd (completeMission alexAt90App (u_id alex) ''energy_1000'' 2000)) (u_id alex))
       = Some (2, 130, 960)"
proof -
  have lvl: "level (u_progress alexAt90) = 1" and x: "xp (u_progress alexAt90) = 90"
    and c: "coins (u_progress alexAt90) = 100"
    by (simp_all add: alexAt90_progress)
  let ?u2 = "snd (checkLevelUp (awardCompletion alexAt90 ''energy_1000'' 2000))"
  have table: "map (\<lambda>a. a\<lparr>ach_unlockedAt := None\<rparr>) (achievements alexAt90App)
                 = initializeAchievements"
    using newApp_table by (simp add: alexAt90App_def)
  have u2: "completedMissions (u_progress ?u2) \<noteq> []"
    "unlockedAchievements (u_progress ?u2) = []"
    "streaks (u_progress ?u2) = Map.empty"
    by (simp_all add: checkLevelUp_progress awardCompletion_progress alexAt90_progress)
  have bonus: "sum_list (map ach_xpReward (fst (checkAchievements alexAt90App ?u2 2000))) = 850"
    unfolding checkAchievements_new
    by (simp add: unlocked_by_rules(2) [OF table u2(1)] u2(2,3))
  from completeMission_level_up [OF alexAt90_stored lvl x, of "''energy_1000''" 2000]
  obtain user' where
    "fst (completeMission alexAt90App (u_id alex) ''energy_1000'' 2000)"
    "getUser (snd (completeMission alexAt90App (u_id alex) ''energy_1000'' 2000)) (u_id alex)
       = Some user'"
    "level (u_progress user') = 2"
    "coins (u_progress user') = coins (u_progress alexAt90) + 10 + 2 * 10"
    "xp (u_progress user') = 90 + 20
        + sum_list (map ach_xpReward (fst (checkAchievements alexAt90App ?u2 2000)))"
    by blast
  with alexAt90_stored lvl x c bonus show ?thesis by simp
qed

subsection \<open>C3: the first-mission achievement is granted once\<close>

text \<open>
  Claim C3. As long as the achievement table holds the rules of
  \<open>initializeAchievements\<close> (only \<open>unlockedAt\<close> ever changes in it), a \<open>completeMission\<close>
  call for a known user appends \<open>first_mission\<close> to \<open>unlockedAchievements\<close> and adds its
  50 points exactly when the id is not there yet, as on the first completion of a new
  user; when it is there, the achievement is skipped: the id stays, as often as it was,
  and the 50 points are not added. The table keeps its rules, so the same holds for every
  later call. The other achievements of the table are in the formula as the code grants
  them.
\<close>

theorem first_mission_unlocked_once:
  assumes table: "map (\<lambda>a. a\<lparr>ach_unlockedAt := None\<rparr>) (achievements app)
                    = initializeAchievements"
    and user: "getUser app userId = Some user"
  shows "fst (completeMission app userId missionId now)
     \<and> map (\<lambda>a. a\<lparr>ach_unlockedAt := None\<rparr>)
          (achievements (snd (completeMission app userId missionId now)))
         = initializeAchievements
     \<and> (\<exists>user'. getUser (snd (completeMission app userId missionId now)) userId = Some user'
           \<and> completedMissions (u_progress user')
               = completedMissions (u_progress user) @ [missionId]
           \<and> streaks (u_progress user') = streaks (u_progress user)
           \<and> unlockedAchievements (u_progress user')
               = unlockedAchievements (u_progress user)
                 @ (if ''first_mission'' \<in> set (unlockedAchievements (u_progress user))
                    then [] else [''first_mission''])
                 @ (if ''week_warrior'' \<notin> set (unlockedAchievements (u_progress user))
                       \<and> 7 \<le> (case streaks (u_progress user) ''daily'' of
                                   None \<Rightarrow> 0 | Some n \<Rightarrow> n)
                    then [''week_warrior''] else [])
                 @ (if ''fitness_fanatic'' \<in> set (unlockedAchievements (u_progress user))
                    then [] else [''fitness_fanatic''])
                 @ (if ''level_10'' \<in> set (unlockedAchievements (u_progress user))
                    then [] else [''level_10''])
           \<and> xp (u_progress user')
               = xp (u_progress user) + 20
                 + (if ''first_mission'' \<in> set (unlockedAchievements (u_progress user))
                    then 0 else 50)
                 + (if ''week_warrior'' \<notin> set (unlockedAchievements (u_progress user))
                       \<and> 7 \<le> (case streaks (u_progress user) ''daily'' of
                                   None \<Rightarrow> 0 | Some n \<Rightarrow> n)
                    then 200 else 0)
                 + (if ''fitness_fanatic'' \<in> set (unlockedAchievements (u_progress user))
                    then 0 else 300)
                 + (if ''level_10'' \<in> set (unlockedAchievements (u_progress user))
                    then 0 else 500)
           \<and> ''first_mission'' \<in> set (unlockedAchievements (u_progress user'))
           \<and> count_list (unlockedAchievements (u_progress user')) ''first_mission''
               = (if ''first_mission'' \<in> set (unlockedAchievements (u_progress user))
                  then count_list (unlockedAchievements (u_progress user)) ''first_mission''
                  else 1))"
proof -
  let ?u2 = "snd (checkLevelUp (awardCompletion user missionId now))"
  let ?loop = "checkAchievementsLoop now (achievements app) ?u2"
  let ?user' = "(snd (snd ?loop))\<lparr>u_updatedAt := now\<rparr>"
  have u2: "completedMissions (u_progress ?u2) = completedMissions (u_progress user) @ [missionId]"
    "unlockedAchievements (u_progress ?u2) = unlockedAchievements (u_progress user)"
    "streaks (u_progress ?u2) = streaks (u_progress user)"
    "xp (u_progress ?u2) = xp (u_progress user) + 20"
    by (simp_all add: checkLevelUp_progress awardCompletion_progress)
  then have nonempty: "completedMissions (u_progress ?u2) \<noteq> []" by simp
  note rules = unlocked_by_rules [OF table nonempty, of now]
  have progress': "u_progress ?user'
      = (u_progress ?u2)
          \<lparr>xp := xp (u_progress ?u2) + sum_list (map ach_xpReward (fst (snd ?loop))),
           unlockedAchievements := unlockedAchievements (u_progress ?u2)
                                     @ map ach_id (fst (snd ?loop))\<rparr>"
    by (simp add: loop_user [of now "achievements app" ?u2])
  have logged: "completedMissions (u_progress ?user')
                = completedMissions (u_progress user) @ [missionId]"
    by (simp add: progress' u2)
  have counters: "streaks (u_progress ?user') = streaks (u_progress user)"
    by (simp add: progress' u2)
  have unlocked: "unlockedAchievements (u_progress ?user')
               = unlockedAchievements (u_progress user)
                 @ (if ''first_mission'' \<in> set (unlockedAchievements (u_progress user))
                    then [] else [''first_mission''])
                 @ (if ''week_warrior'' \<notin> set (unlockedAchievements (u_progress user))
                       \<and> 7 \<le> (case streaks (u_progress user) ''daily'' of
                                   None \<Rightarrow> 0 | Some n \<Rightarrow> n)
                    then [''week_warrior''] else [])
                 @ (if ''fitness_fanatic'' \<in> set (unlockedAchievements (u_progress user))
                    then [] else [''fitness_fanatic''])
                 @ (if ''level_10'' \<in> set (unlockedAchievements (u_progress user))
                    then [] else [''level_10''])"
    by (simp add: progress' rules(1) u2)
  have points: "xp (u_progress ?user')
               = xp (u_progress user) + 20
                 + (if ''first_mission'' \<in> set (unlockedAchievements (u_progress user))
                    then 0 else 50)
                 + (if ''week_warrior'' \<notin> set (unlockedAchievements (u_progress user))
                       \<and> 7 \<le> (case streaks (u_progress user) ''daily'' of
                                   None \<Rightarrow> 0 | Some n \<Rightarrow> n)
                    then 200 else 0)
                 + (if ''fitness_fanatic'' \<in> set (unlockedAchievements (u_progress user))
                    then 0 else 300)
                 + (if ''level_10'' \<in> set (unlockedAchievements (u_progress user))
                    then 0 else 500)"
    by (simp add: progress' rules(2) u2)
  have member: "''first_mission'' \<in> set (unlockedAchievements (u_progress ?user'))"
    unfolding unlocked by simp
  have count: "count_list (unlockedAchievements (u_progress ?user')) ''first_mission''
               = (if ''first_mission'' \<in> set (unlockedAchievements (u_progress user))
                  then count_list (unlockedAchievements (u_progress user)) ''first_mission''
                  else 1)"
    unfolding unlocked by (simp add: count_list_0_iff)
  note known = completeMission_known [OF user, of missionId now]
  have kept: "map (\<lambda>a. a\<lparr>ach_unlockedAt := None\<rparr>)
          (achievements (snd (completeMission app userId missionId now)))
         = initializeAchievements"
    by (simp only: known(3) loop_table table)
  from known(1) kept known(2) logged counters unlocked points member count
  show ?thesis by blast
qed

text \<open>
  Alex's first completion brings 20 + 50 + 300 + 500 points and three achievements; the
  second brings 20 points and none.
\<close>

theorem first_mission_unlocked_once_witness:
  "map (\<lambda>a. a\<lparr>ach_unlockedAt := None\<rparr>) (achievements alexApp) = initializeAchievements
   \<and> getUser alexApp (u_id alex) = Some alex
   \<and> completedMissions (u_progress alex) = []
   \<and> map_option (\<lambda>u. (xp (u_progress u), unlockedAchievements (u_progress u)))
        (getUser alexAfterFirst (u_id alex))
       = Some (870, [''first_mission'', ''fitness_fanatic'', ''level_10''])
   \<and> map_option (\<lambda>u. (xp (u_progress u), unlockedAchievements (u_progress u)))
        (getUser alexAfterSecond (u_id alex))
       = Some (890, [''first_mission'', ''fitness_fanatic'', ''level_10''])"
proof -
  have start: "completedMissions (u_progress alex) = []"
    "unlockedAchievements (u_progress alex) = []" "xp (u_progress alex) = 0"
    "streaks (u_progress alex) = Map.empty"
    by (simp_all add: alex_progress)
  from first_mission_unlocked_once [OF alexApp_table alex_stored, of "''energy_1000''" 2000]
  obtain user1 where
    table1: "map (\<lambda>a. a\<lparr>ach_unlockedAt := None\<rparr>) (achievements alexAfterFirst)
              = initializeAchievements"
    and stored1: "getUser alexAfterFirst (u_id alex) = Some user1"
    and unlocked1: "unlockedAchievements (u_progress user1)
                      = [''first_mission'', ''fitness_fanatic'', ''level_10'']"
    and xp1: "xp (u_progress user1) = 870"
    and streaks1: "streaks (u_progress user1) = Map.empty"
    unfolding alexAfterFirst_def [symmetric] by (auto simp: start)
  from first_mission_unlocked_once [OF table1 stored1, of "''fitness_1000''" 3000]
  obtain user2 where
    stored2: "getUser alexAfterSecond (u_id alex) = Some user2"
    and unlocked2: "unlockedAchievements (u_progress user2)
                      = [''first_mission'', ''fitness_fanatic'', ''level_10'']"
    and xp2: "xp (u_progress user2) = 890"
    unfolding alexAfterSecond_def [symmetric] by (auto simp: unlocked1 xp1 streaks1)
  from alexApp_table alex_stored start(1) stored1 unlocked1 xp1 stored2 unlocked2 xp2
  show ?thesis by simp
qed

subsection \<open>C9: a falsy answer counts as no answer\<close>

lemma responseMap_snoc:
  "responseMap (rs @ [r]) = (responseMap rs)(sr_questionId r \<mapsto> sr_value r)"
  by (simp add: responseMap_def)

lemma responseMap_without:
  "responseMap (filter (\<lambda>r. sr_questionId r \<noteq> q) rs) = (responseMap rs)(q := None)"
proof (induction rs rule: rev_induct)
  case Nil
  show ?case by (simp add: responseMap_def)
next
  case (snoc r rs)
  show ?case
  proof (cases "sr_questionId r = q")
    case True
    with snoc show ?thesis by (auto simp: responseMap_snoc fun_eq_iff)
  next
    case False
    with snoc show ?thesis by (auto simp: responseMap_snoc fun_eq_iff)
  qed
qed

lemma responseMap_last:
  "\<forall>r' \<in> set later. sr_questionId r' \<noteq> sr_questionId r \<Longrightarrow>
     responseMap (earlier @ r # later) (sr_questionId r) = Some (sr_value r)"
proof (induction later rule: rev_induct)
  case Nil
  show ?case by (simp add: responseMap_snoc)
next
  case (snoc x xs)
  then have "responseMap (earlier @ r # xs) (sr_questionId r) = Some (sr_value r)"
    and "sr_questionId x \<noteq> sr_questionId r"
    by simp_all
  moreover have "earlier @ r # xs @ [x] = (earlier @ r # xs) @ [x]" by simp
  ultimately show ?case by (simp only: responseMap_snoc) simp
qed

lemma orElse_falsy: "\<not> truthy a \<Longrightarrow> \<not> truthy b \<Longrightarrow> orElse a d = orElse b d"
  by (simp add: orElse_def)

text \<open>
  Claim C9. Whenever the last answer to a question converts to a falsy number,
  \<open>processSurveyResponses\<close> and \<open>processGoals\<close> return what they return for the
  responses without any answer to that question: the field takes its fallback value. The
  number 0, NaN, \<open>false\<close> and every string that converts to NaN or to 0 are such answers;
  for \<open>baseline_energy\<close> the result is \<open>energyLevel\<close> 1.
\<close>

theorem falsy_answer_is_no_answer:
  assumes "sr_questionId r = q"
    and "\<forall>r' \<in> set later. sr_questionId r' \<noteq> q"
    and "\<not> truthy (toNumber stringToNumber (Some (sr_value r)))"
  shows "processSurveyResponses stringToNumber userId (earlier @ r # later)
           = processSurveyResponses stringToNumber userId
               (filter (\<lambda>r'. sr_questionId r' \<noteq> q) (earlier @ r # later))
     \<and> processGoals stringToNumber (earlier @ r # later)
           = processGoals stringToNumber
               (filter (\<lambda>r'. sr_questionId r' \<noteq> q) (earlier @ r # later))
     \<and> (q = ''baseline_energy'' \<longrightarrow>
           ub_energyLevel (processSurveyResponses stringToNumber userId (earlier @ r # later))
             = Fin 1)
     \<and> \<not> truthy (toNumber stringToNumber (Some (JNumber (Fin 0))))
     \<and> \<not> truthy (toNumber stringToNumber (Some (JNumber NaN)))
     \<and> \<not> truthy (toNumber stringToNumber (Some (JBoolean False)))
     \<and> \<not> truthy (toNumber stringToNumber None)
     \<and> (\<forall>s. stringToNumber s = NaN \<or> stringToNumber s = Fin 0 \<longrightarrow>
            \<not> truthy (toNumber stringToNumber (Some (JString s))))"
proof -
  let ?all = "earlier @ r # later"
  let ?rest = "filter (\<lambda>r'. sr_questionId r' \<noteq> q) ?all"
  have here: "responseMap ?all q = Some (sr_value r)"
    using responseMap_last [of later r earlier] assms(1,2) by simp
  have key: "orElse (toNumber stringToNumber (responseMap ?all q')) d
               = orElse (toNumber stringToNumber (responseMap ?rest q')) d" for q' d
  proof (cases "q' = q")
    case True
    have "\<not> truthy (toNumber stringToNumber (responseMap ?all q'))"
      using assms(3) here True by simp
    moreover have "\<not> truthy (toNumber stringToNumber (responseMap ?rest q'))"
      using True by (simp only: responseMap_without) simp
    ultimately show ?thesis by (rule orElse_falsy)
  next
    case False
    then have "responseMap ?rest q' = responseMap ?all q'"
      by (simp only: responseMap_without) simp
    then show ?thesis by simp
  qed
  have baseline: "processSurveyResponses stringToNumber userId ?all
                    = processSurveyResponses stringToNumber userId ?rest"
    unfolding processSurveyResponses_def Let_def by (simp only: key)
  have goals: "processGoals stringToNumber ?all = processGoals stringToNumber ?rest"
    unfolding processGoals_def Let_def by (simp only: key)
  have energy: "q = ''baseline_energy'' \<longrightarrow>
           ub_energyLevel (processSurveyResponses stringToNumber userId ?all) = Fin 1"
  proof
    assume "q = ''baseline_energy''"
    with assms(3) here
    have "\<not> truthy (toNumber stringToNumber (responseMap ?all ''baseline_energy''))"
      by simp
    then show "ub_energyLevel (processSurveyResponses stringToNumber userId ?all) = Fin 1"
      by (simp add: processSurveyResponses_def Let_def orElse_def)
  qed
  have strings: "\<forall>s. stringToNumber s = NaN \<or> stringToNumber s = Fin 0 \<longrightarrow>
            \<not> truthy (toNumber stringToNumber (Some (JString s)))"
    by auto
  from baseline goals energy strings show ?thesis by simp
qed

text \<open>
  Alex's answers followed by a 0 for the energy level, and followed by the word "high":
  energy level 1 both times, as without any answer to the energy question.
\<close>

theorem falsy_answer_is_no_answer_witness:
  "sr_questionId zeroEnergyAnswer = ''baseline_energy''
   \<and> \<not> truthy (toNumber onlySeven (Some (sr_value zeroEnergyAnswer)))
   \<and> ub_energyLevel (processSurveyResponses onlySeven ''user_1'' (exampleResponses @ [zeroEnergyAnswer]))
       = Fin 1
   \<and> processSurveyResponses onlySeven ''user_1'' (exampleResponses @ [zeroEnergyAnswer])
       = processSurveyResponses onlySeven ''user_1'' (tl exampleResponses)
   \<and> sr_questionId wordEnergyAnswer = ''baseline_energy''
   \<and> \<not> truthy (toNumber onlySeven (Some (sr_value wordEnergyAnswer)))
   \<and> ub_energyLevel (processSurveyResponses onlySeven ''user_1'' (exampleResponses @ [wordEnergyAnswer]))
       = Fin 1"
proof -
  have q0: "sr_questionId zeroEnergyAnswer = ''baseline_energy''"
    and f0: "\<not> truthy (toNumber onlySeven (Some (sr_value zeroEnergyAnswer)))"
    by (simp_all add: zeroEnergyAnswer_def)
  have qw: "sr_questionId wordEnergyAnswer = ''baseline_energy''"
    and fw: "\<not> truthy (toNumber onlySeven (Some (sr_value wordEnergyAnswer)))"
    by (simp_all add: wordEnergyAnswer_def onlySeven_def)
  have none: "\<forall>r' \<in> set []. sr_questionId r' \<noteq> ''baseline_energy''" by simp
  note zero = falsy_answer_is_no_answer [OF q0 none f0, of "''user_1''" exampleResponses]
  note word = falsy_answer_is_no_answer [OF qw none fw, of "''user_1''" exampleResponses]
  have rest: "filter (\<lambda>r'. sr_questionId r' \<noteq> ''baseline_energy'')
                (exampleResponses @ [zeroEnergyAnswer]) = tl exampleResponses"
    by (simp add: exampleResponses_def zeroEnergyAnswer_def)
  from zero have e0: "ub_energyLevel (processSurveyResponses onlySeven ''user_1''
                        (exampleResponses @ [zeroEnergyAnswer])) = Fin 1"
    by blast
  from zero have "processSurveyResponses onlySeven ''user_1'' (exampleResponses @ [zeroEnergyAnswer])
       = processSurveyResponses onlySeven ''user_1''
           (filter (\<lambda>r'. sr_questionId r' \<noteq> ''baseline_energy'')
              (exampleResponses @ [zeroEnergyAnswer]))"
    by blast
  then have same: "processSurveyResponses onlySeven ''user_1''
                     (exampleResponses @ [zeroEnergyAnswer])
       = processSurveyResponses onlySeven ''user_1'' (tl exampleResponses)"
    by (simp only: rest)
  from word have ew: "ub_energyLevel (processSurveyResponses onlySeven ''user_1''
                        (exampleResponses @ [wordEnergyAnswer])) = Fin 1"
    by blast
  from q0 f0 e0 same qw fw ew show ?thesis by blast
qed

end
